theory Spec2Isabelle
  imports Complex_Main
begin

section \<open>The MQ3 breathalyzer firmware\<close>

text \<open>
  The firmware is MicroPython: a sensor class (\<open>MQ3Sensor\<close>), a hardware class
  (\<open>Hardware\<close>) and a polling loop (\<open>main\<close>). Python floats are modelled as
  \<^typ>\<open>real\<close>, Python integers as \<^typ>\<open>int\<close>. The calls to \<open>log\<close> are left out: they
  write to a file and the console and change nothing the program reads back.
\<close>

subsection \<open>config.py\<close>

definition AIR_R0_RATIO :: real where
  "AIR_R0_RATIO = 60.0"

definition WARM_UP_TIME :: nat where
  "WARM_UP_TIME = 20"

definition NUM_CALIBRATION_READINGS :: nat where
  "NUM_CALIBRATION_READINGS = 10"

definition LONG_PRESS_TIME :: int where
  "LONG_PRESS_TIME = 3"

subsection \<open>Data\<close>

text \<open>The exceptions the modelled code can raise.\<close>

datatype py_error = ZeroDivisionError | ValueError

text \<open>\<open>class State\<close> of main.py.\<close>

datatype State = OFF | ON | CALIBRATING

text \<open>
  What \<open>display_message\<close> is asked to show. The four measurement lines of the main loop
  are f-strings that format a float; the model keeps the number that is formatted.
\<close>

datatype message =
    Text string
  | RawLine real
  | PpmLine real
  | BacLine real
  | GmlLine real

text \<open>
  The trace of the program: every read of the ADC pin with the value read, every call of
  \<open>display_message\<close> with its arguments (the way \<open>MockHardware\<close> of test\_sensor.py
  collects them), and every assignment to the variable \<open>state\<close> of \<open>main\<close>.
\<close>

datatype event =
    AdcRead int
  | Display message int int bool
  | SetState State

text \<open>
  One record holds the environment, the \<open>Hardware\<close> object, the \<open>MQ3Sensor\<close> object
  (which refers to the same \<open>Hardware\<close> object as \<open>main\<close> does) and the local variables
  of \<open>main\<close>.

  The environment: \<open>clock\<close> is the time in seconds, moved forward by \<open>utime.sleep\<close> only
  (computation takes no time); \<open>pin_value\<close> is the level of the button pin at a given
  time; \<open>adc\<close> is the sequence of values the ADC pin returns, \<open>reading_index\<close> the number
  of reads so far.
\<close>

record world =
  clock :: real
  pin_value :: "real \<Rightarrow> int"
  adc :: "nat \<Rightarrow> int"
  reading_index :: nat
  trace :: "event list"
  button_press_time :: int
  r0 :: real
  readings :: "real list"
  max_readings :: nat
  state :: State
  last_reading_time :: int

text \<open>
  A call either raises, or returns. An exception does not undo what the call did before it
  was raised, so the raising outcome carries the world at that moment too.
\<close>

type_synonym 'a result = "(py_error \<times> world) + ('a \<times> world)"

type_synonym outcome = "(py_error \<times> world) + world"

subsection \<open>utime and math\<close>

text \<open>\<open>utime.time()\<close> returns whole seconds.\<close>

definition utime_time :: "world \<Rightarrow> int" where
  "utime_time w = \<lfloor>clock w\<rfloor>"

definition utime_sleep :: "real \<Rightarrow> world \<Rightarrow> world" where
  "utime_sleep d w = w\<lparr>clock := clock w + d\<rparr>"

text \<open>
  \<open>math.pow(x, y)\<close>: a zero base with a negative exponent and a negative base with a
  fractional exponent raise \<open>ValueError\<close> (math domain error).
\<close>

definition math_pow :: "real \<Rightarrow> real \<Rightarrow> py_error + real" where
  "math_pow x y =
     (if 0 < x then Inr (x powr y)
      else if x = 0 then
        (if y < 0 then Inl ValueError else if y = 0 then Inr 1 else Inr 0)
      else if real_of_int \<lfloor>y\<rfloor> = y then Inr (power_int x \<lfloor>y\<rfloor>)
      else Inl ValueError)"

subsection \<open>hardware.py\<close>

definition display_message :: "message \<Rightarrow> int \<Rightarrow> int \<Rightarrow> bool \<Rightarrow> world \<Rightarrow> world" where
  "display_message m x y clear w = w\<lparr>trace := trace w @ [Display m x y clear]\<rparr>"

definition button_pressed :: "world \<Rightarrow> bool" where
  "button_pressed w = (pin_value w (clock w) = 0)"

definition check_button :: "world \<Rightarrow> int \<times> world" where
  "check_button w =
     (if button_pressed w then
        (let w1 = (if button_press_time w = 0
                   then w\<lparr>button_press_time := utime_time w\<rparr> else w)
         in (utime_time w1 - button_press_time w1, w1))
      else
        (let press_duration =
               (if button_press_time w > 0 then utime_time w - button_press_time w else 0)
         in (press_duration, w\<lparr>button_press_time := 0\<rparr>)))"

text \<open>\<open>self.hardware.mq3_pin.read()\<close>: the next value of the ADC sequence.\<close>

definition mq3_pin_read :: "world \<Rightarrow> int \<times> world" where
  "mq3_pin_read w =
     (let v = adc w (reading_index w)
      in (v, w\<lparr>reading_index := Suc (reading_index w), trace := trace w @ [AdcRead v]\<rparr>))"

subsection \<open>sensor.py\<close>

text \<open>\<open>MQ3Sensor._calculate_rs\<close>: the float division raises when the voltage is zero.\<close>

definition calculate_rs :: "world \<Rightarrow> real result" where
  "calculate_rs w =
     (let (sensor_value, w1) = mq3_pin_read w;
          sensor_volt = real_of_int sensor_value * (3.3 / 4095.0)
      in if sensor_volt = 0 then Inl (ZeroDivisionError, w1)
         else Inr ((3.3 * 1000.0 / sensor_volt) - 1000.0, w1))"

text \<open>
  \<open>MQ3Sensor.calibrate\<close>. The \<open>for\<close> loop is \<open>calibrate_loop\<close>: its first argument is
  the number of iterations left, its second the running \<open>r0_sum\<close>.
\<close>

fun calibrate_loop :: "nat \<Rightarrow> real \<Rightarrow> world \<Rightarrow> real result" where
  "calibrate_loop 0 r0_sum w = Inr (r0_sum, w)"
| "calibrate_loop (Suc n) r0_sum w =
     (case calculate_rs w of
        Inl e \<Rightarrow> Inl e
      | Inr (rs, w1) \<Rightarrow> calibrate_loop n (r0_sum + rs / AIR_R0_RATIO) (utime_sleep 0.1 w1))"

definition calibrate :: "world \<Rightarrow> outcome" where
  "calibrate w =
     (case calibrate_loop NUM_CALIBRATION_READINGS 0
             (display_message (Text ''Calibrating...'') 0 0 True w) of
        Inl e \<Rightarrow> Inl e
      | Inr (r0_sum, w1) \<Rightarrow>
          Inr (utime_sleep 2
                (display_message (Text ''Calibration done'') 0 0 True
                  (w1\<lparr>r0 := r0_sum / real NUM_CALIBRATION_READINGS\<rparr>))))"

text \<open>\<open>MQ3Sensor.warm_up\<close>; \<open>warm_up_tick i\<close> is the body of its loop.\<close>

definition warm_up_tick :: "nat \<Rightarrow> world \<Rightarrow> world" where
  "warm_up_tick i w =
     utime_sleep 1 (display_message (Text (replicate i (CHR ''.''))) 0 20 False w)"

definition warm_up :: "world \<Rightarrow> outcome" where
  "warm_up w =
     calibrate (fold warm_up_tick [0..<WARM_UP_TIME]
                  (display_message (Text ''Warming up...'') 0 0 True w))"

text \<open>\<open>MQ3Sensor.read_raw_value_of_alcohol\<close>.\<close>

definition read_raw_value_of_alcohol :: "world \<Rightarrow> real result" where
  "read_raw_value_of_alcohol w =
     (case calculate_rs w of
        Inl e \<Rightarrow> Inl e
      | Inr (rs, w1) \<Rightarrow>
          if r0 w1 = 0 then Inr (0, w1)
          else (case math_pow (rs / r0 w1) (- 1.43068) of
                  Inl e \<Rightarrow> Inl (e, w1)
                | Inr p \<Rightarrow> Inr (0.4 * p, w1)))"

text \<open>
  \<open>MQ3Sensor.get_smoothed_reading\<close>. \<open>pop(0)\<close> is only reached on a non-empty list; the
  final division raises when the list is empty.
\<close>

definition get_smoothed_reading :: "world \<Rightarrow> real result" where
  "get_smoothed_reading w =
     (case read_raw_value_of_alcohol w of
        Inl e \<Rightarrow> Inl e
      | Inr (raw, w1) \<Rightarrow>
          (let appended = readings w1 @ [raw];
               kept = (if length appended > max_readings w1 then tl appended else appended);
               w2 = w1\<lparr>readings := kept\<rparr>
           in if length kept = 0 then Inl (ZeroDivisionError, w2)
              else Inr (sum_list kept / real (length kept), w2)))"

definition convert_raw_to_bac :: "real \<Rightarrow> real" where
  "convert_raw_to_bac raw = raw * 0.2"

definition convert_raw_to_gram_per_millilitre :: "real \<Rightarrow> real" where
  "convert_raw_to_gram_per_millilitre raw = raw * 0.002"

definition convert_raw_to_ppm :: "real \<Rightarrow> real" where
  "convert_raw_to_ppm raw = raw * 500.0"

subsection \<open>main.py\<close>

definition reading_interval :: int where
  "reading_interval = 1"

definition set_state :: "State \<Rightarrow> world \<Rightarrow> world" where
  "set_state s w = w\<lparr>state := s, trace := trace w @ [SetState s]\<rparr>"

text \<open>
  The body of \<open>while True\<close> in three parts. \<open>main_button d\<close> is the \<open>if\<close> on the press
  duration \<open>d\<close> that \<open>check_button\<close> returned.
\<close>

definition main_button :: "int \<Rightarrow> world \<Rightarrow> outcome" where
  "main_button d w =
     (if d > 0 then
        (if d \<ge> LONG_PRESS_TIME then
           (case (if state w = OFF then warm_up (set_state ON w)
                  else Inr (set_state OFF w)) of
              Inl e \<Rightarrow> Inl e
            | Inr w1 \<Rightarrow>
                Inr (utime_sleep 1
                      (display_message (Text (if state w1 = ON then ''ON'' else ''OFF''))
                         0 0 True w1)))
         else if state w = ON \<and> d < LONG_PRESS_TIME then
           (case calibrate (set_state CALIBRATING w) of
              Inl e \<Rightarrow> Inl e
            | Inr w1 \<Rightarrow> Inr (set_state ON w1))
         else Inr w)
      else Inr w)"

text \<open>\<open>main_reading\<close> is the \<open>if state == State.ON\<close> block.\<close>

definition main_reading :: "world \<Rightarrow> outcome" where
  "main_reading w =
     (if state w = ON then
        (let current_time = utime_time w
         in if current_time - last_reading_time w \<ge> reading_interval then
              (case get_smoothed_reading w of
                 Inl e \<Rightarrow> Inl e
               | Inr (raw_alcohol, w1) \<Rightarrow>
                   (let ppm = convert_raw_to_ppm raw_alcohol;
                        bac = convert_raw_to_bac raw_alcohol;
                        g_per_ml = convert_raw_to_gram_per_millilitre raw_alcohol;
                        w2 = display_message (RawLine raw_alcohol) 0 0 True w1;
                        w3 = display_message (PpmLine ppm) 0 16 False w2;
                        w4 = display_message (BacLine bac) 0 32 False w3;
                        w5 = display_message (GmlLine g_per_ml) 0 48 False w4
                    in Inr (w5\<lparr>last_reading_time := current_time\<rparr>)))
            else Inr w)
      else Inr w)"

definition main_body :: "world \<Rightarrow> outcome" where
  "main_body w =
     (let (button_press_duration, w1) = check_button w
      in case main_button button_press_duration w1 of
           Inl e \<Rightarrow> Inl e
         | Inr w2 \<Rightarrow>
             (case main_reading w2 of
                Inl e \<Rightarrow> Inl e
              | Inr w3 \<Rightarrow> Inr (utime_sleep 0.1 w3)))"

text \<open>
  The loop never ends by itself: \<open>main_loop n\<close> is its first \<open>n\<close> iterations, stopped
  earlier by an exception, which nothing catches.
\<close>

fun main_loop :: "nat \<Rightarrow> world \<Rightarrow> outcome" where
  "main_loop 0 w = Inr w"
| "main_loop (Suc n) w =
     (case main_body w of
        Inl e \<Rightarrow> Inl e
      | Inr w1 \<Rightarrow> main_loop n w1)"

text \<open>
  The world when the loop is entered: \<open>Hardware()\<close>, \<open>MQ3Sensor(hw)\<close> and the initial
  values of the local variables, in an environment given by the time \<open>t\<close>, the button
  pin \<open>pin\<close> and the ADC sequence \<open>samples\<close>.
\<close>

definition main_start :: "real \<Rightarrow> (real \<Rightarrow> int) \<Rightarrow> (nat \<Rightarrow> int) \<Rightarrow> world" where
  "main_start t pin samples =
     \<lparr>clock = t, pin_value = pin, adc = samples, reading_index = 0, trace = [],
      button_press_time = 0, r0 = 1.0, readings = [], max_readings = 10,
      state = OFF, last_reading_time = 0\<rparr>"

subsection \<open>test\_sensor.py\<close>

text \<open>
  \<open>MockHardware(mock_readings)\<close> returns the readings in turn and starts again at the end
  of the list; \<open>mock_sensor\<close> is \<open>MQ3Sensor(mock_hw)\<close> on it. The tests use non-empty
  lists only.
\<close>

definition mock_adc :: "int list \<Rightarrow> nat \<Rightarrow> int" where
  "mock_adc mock_readings i = mock_readings ! (i mod length mock_readings)"

definition mock_sensor :: "int list \<Rightarrow> world" where
  "mock_sensor mock_readings = main_start 0 (\<lambda>t. 1) (mock_adc mock_readings)"

definition approx_equal :: "real \<Rightarrow> real \<Rightarrow> real \<Rightarrow> bool" where
  "approx_equal a b tolerance = (\<bar>a - b\<bar> < tolerance)"

text \<open>The tests call a method several times in a row and look at each returned value.\<close>

fun call_times :: "nat \<Rightarrow> (world \<Rightarrow> real result) \<Rightarrow> world \<Rightarrow> (real list) result" where
  "call_times 0 f w = Inr ([], w)"
| "call_times (Suc n) f w =
     (case f w of
        Inl e \<Rightarrow> Inl e
      | Inr (x, w1) \<Rightarrow>
          (case call_times n f w1 of
             Inl e \<Rightarrow> Inl e
           | Inr (xs, w2) \<Rightarrow> Inr (x # xs, w2)))"

subsection \<open>Reading outcomes and traces\<close>

text \<open>The world an outcome ends in, raised or not.\<close>

definition final :: "outcome \<Rightarrow> world" where
  "final r = (case r of Inl (e, w) \<Rightarrow> w | Inr w \<Rightarrow> w)"

text \<open>
  \<open>io_states s es\<close> pairs each ADC read and each display call of the trace \<open>es\<close> with the
  value the variable \<open>state\<close> had when it happened, \<open>s\<close> being its value before \<open>es\<close>.
\<close>

fun io_states :: "State \<Rightarrow> event list \<Rightarrow> (State \<times> event) list" where
  "io_states s [] = []"
| "io_states s (SetState s' # es) = io_states s' es"
| "io_states s (e # es) = (s, e) # io_states s es"

definition world_of :: "'a result \<Rightarrow> world" where
  "world_of r = (case r of Inl (e, w) \<Rightarrow> w | Inr (x, w) \<Rightarrow> w)"

text \<open>The values assigned to \<open>state\<close> in a trace, and the value it has after a trace.\<close>

fun state_changes :: "event list \<Rightarrow> State list" where
  "state_changes [] = []"
| "state_changes (SetState s # es) = s # state_changes es"
| "state_changes (e # es) = state_changes es"

fun state_after :: "State \<Rightarrow> event list \<Rightarrow> State" where
  "state_after s [] = s"
| "state_after s (SetState s' # es) = state_after s' es"
| "state_after s (e # es) = state_after s es"

text \<open>Input and output: everything in a trace but the assignments to \<open>state\<close>.\<close>

fun is_io :: "event \<Rightarrow> bool" where
  "is_io (SetState s) = False"
| "is_io e = True"

text \<open>What \<open>calibrate\<close> reads and shows.\<close>

fun calibrate_event :: "event \<Rightarrow> bool" where
  "calibrate_event (AdcRead v) = True"
| "calibrate_event (Display m x y clear) =
     ((m = Text ''Calibrating...'' \<or> m = Text ''Calibration done'')
      \<and> x = 0 \<and> y = 0 \<and> clear)"
| "calibrate_event (SetState s) = False"

text \<open>
  The input and output found in each state: anything while \<open>ON\<close>, the message \<open>OFF\<close>
  while \<open>OFF\<close>, and what \<open>calibrate\<close> does while \<open>CALIBRATING\<close>.
\<close>

fun permitted :: "State \<times> event \<Rightarrow> bool" where
  "permitted (ON, e) = True"
| "permitted (OFF, e) = (e = Display (Text ''OFF'') 0 0 True)"
| "permitted (CALIBRATING, e) = calibrate_event e"

text \<open>
  A world is consistent when \<open>state\<close> holds the value the trace says it has, and all
  input and output of the trace was permitted in the state it had then.
\<close>

definition consistent :: "world \<Rightarrow> bool" where
  "consistent w =
     (state_after OFF (trace w) = state w \<and> list_all permitted (io_states OFF (trace w)))"

text \<open>The four lines of a measurement shown by the main loop.\<close>

fun measurement_line :: "event \<Rightarrow> bool" where
  "measurement_line (Display (RawLine v) x y clear) = True"
| "measurement_line (Display (PpmLine v) x y clear) = True"
| "measurement_line (Display (BacLine v) x y clear) = True"
| "measurement_line (Display (GmlLine v) x y clear) = True"
| "measurement_line e = False"

text \<open>
  Four runs of the firmware, all with the constant sample 2000. The button pin is 0
  while the button is pressed. In the first three the loop starts at time 1000.95 with
  the button down and the button is released at time 1003; this press is reported with
  the duration 3 in the iteration that sees the release, and the device is \<open>ON\<close> from
  then on. The button is pressed a second time at 1027.1: in \<open>scenario_tap\<close> it stays
  down, in \<open>scenario_quick_tap\<close> it is released at 1027.9, after 0.8 seconds, and in
  \<open>scenario_late_release\<close> it is released at 1029, after 1.9 seconds.
\<close>

definition scenario_tap :: world where
  "scenario_tap =
     main_start 1000.95 (\<lambda>t. if t < 1003 \<or> 1027.1 \<le> t then 0 else 1) (\<lambda>i. 2000)"

definition scenario_quick_tap :: world where
  "scenario_quick_tap =
     main_start 1000.95 (\<lambda>t. if t < 1003 \<or> (1027.1 \<le> t \<and> t < 1027.9) then 0 else 1)
       (\<lambda>i. 2000)"

definition scenario_late_release :: world where
  "scenario_late_release =
     main_start 1000.95 (\<lambda>t. if t < 1003 \<or> (1027.1 \<le> t \<and> t < 1029) then 0 else 1)
       (\<lambda>i. 2000)"

text \<open>
  In \<open>scenario_three_presses\<close> the loop starts at time 1000 and the button is pressed
  three times for five seconds: from 1000 to 1005, from 1028 to 1033 and from 1056 to
  1061.
\<close>

definition scenario_three_presses :: world where
  "scenario_three_presses =
     main_start 1000
       (\<lambda>t. if t < 1005 \<or> (1028 \<le> t \<and> t < 1033) \<or> (1056 \<le> t \<and> t < 1061) then 0 else 1)
       (\<lambda>i. 2000)"

text \<open>The world after \<open>n\<close> iterations of the loop, or where an exception stopped it.\<close>

definition after :: "nat \<Rightarrow> world \<Rightarrow> world" where
  "after n w = final (main_loop n w)"

text \<open>The voltage-divider formula, as a function of the sample.\<close>

definition resistance :: "int \<Rightarrow> real" where
  "resistance s = (3.3 * 1000 / (real_of_int s * (3.3 / 4095))) - 1000"

text \<open>The power law of the sensor, as a function of the resistance and of \<open>r0\<close>.\<close>

definition concentration :: "real \<Rightarrow> real \<Rightarrow> real" where
  "concentration rs r = 0.4 * (rs / r) powr (- 1.43068)"

subsection \<open>Bounds on real powers\<close>

text \<open>
  A power \<open>x powr a\<close> with \<open>x \<ge> 1\<close> is enclosed between rationals by repeated square
  roots. \<open>roots_below p ls\<close> says that \<open>ls\<close> is a list of lower bounds of the square root
  of \<open>p\<close>, of its fourth root, of its eighth root and so on; \<open>roots_above\<close> is the same
  for upper bounds. \<open>dyadic e bs\<close> is the number with the binary digits \<open>bs\<close> after the
  point, in units of \<open>e\<close>, and \<open>selected bs ls\<close> is the product of the elements of \<open>ls\<close>
  at the digits that are set.
\<close>

fun roots_below :: "real \<Rightarrow> real list \<Rightarrow> bool" where
  "roots_below p [] = True"
| "roots_below p (l # ls) = (0 \<le> l \<and> l * l \<le> p \<and> roots_below l ls)"

fun roots_above :: "real \<Rightarrow> real list \<Rightarrow> bool" where
  "roots_above p [] = True"
| "roots_above p (u # us) = (0 \<le> u \<and> p \<le> u * u \<and> roots_above u us)"

fun dyadic :: "real \<Rightarrow> bool list \<Rightarrow> real" where
  "dyadic e [] = 0"
| "dyadic e (b # bs) = (if b then e / 2 else 0) + dyadic (e / 2) bs"

fun selected :: "bool list \<Rightarrow> real list \<Rightarrow> real" where
  "selected (b # bs) (l # ls) = (if b then l else 1) * selected bs ls"
| "selected bs ls = 1"

section \<open>Properties\<close>

subsection \<open>The resistance computation\<close>

lemma calculate_rs_cases:
  "calculate_rs w =
     (if adc w (reading_index w) = 0
      then Inl (ZeroDivisionError, snd (mq3_pin_read w))
      else Inr (resistance (adc w (reading_index w)), snd (mq3_pin_read w)))"
  by (simp add: calculate_rs_def mq3_pin_read_def resistance_def Let_def)

lemma r0_calculate_rs: "calculate_rs w = Inr (r, w1) \<Longrightarrow> r0 w1 = r0 w"
  by (auto simp add: calculate_rs_cases mq3_pin_read_def Let_def split: if_splits)

lemma resistance_simp: "s \<noteq> 0 \<Longrightarrow> resistance s = 4095000 / real_of_int s - 1000"
  by (simp add: resistance_def)

lemmas mock_defs = mock_sensor_def main_start_def mock_adc_def

text \<open>
  C9. \<open>_calculate_rs\<close> returns a resistance for every raw sample from 1 to 4095; for the
  sample 0 the voltage is 0 and the division raises \<open>ZeroDivisionError\<close>; the call raises
  exactly when the sample is 0.
\<close>

theorem C9_zero_voltage_fault:
  "(1 \<le> adc w (reading_index w) \<and> adc w (reading_index w) \<le> 4095 \<longrightarrow>
      (\<exists>rs w'. calculate_rs w = Inr (rs, w')))
   \<and> (adc w (reading_index w) = 0 \<longrightarrow>
        real_of_int (adc w (reading_index w)) * (3.3 / 4095) = 0
        \<and> (\<exists>w'. calculate_rs w = Inl (ZeroDivisionError, w')))
   \<and> ((\<exists>e w'. calculate_rs w = Inl (e, w')) \<longleftrightarrow> adc w (reading_index w) = 0)"
  by (simp add: calculate_rs_cases)

theorem C9_zero_voltage_fault_witness:
  "adc (mock_sensor [0]) (reading_index (mock_sensor [0])) = 0
   \<and> (\<exists>w'. calculate_rs (mock_sensor [0]) = Inl (ZeroDivisionError, w'))
   \<and> 1 \<le> adc (mock_sensor [1000]) (reading_index (mock_sensor [1000]))
   \<and> adc (mock_sensor [1000]) (reading_index (mock_sensor [1000])) \<le> 4095
   \<and> (\<exists>rs w'. calculate_rs (mock_sensor [1000]) = Inr (rs, w'))"
  using C9_zero_voltage_fault [of "mock_sensor [0]"]
    C9_zero_voltage_fault [of "mock_sensor [1000]"]
  by (simp add: mock_defs)

subsection \<open>The concentration\<close>

lemma read_raw_positive:
  "calculate_rs w = Inr (rs, w1) \<Longrightarrow> 0 < r0 w \<Longrightarrow> 0 < rs \<Longrightarrow>
   read_raw_value_of_alcohol w = Inr (0.4 * (rs / r0 w) powr (- 1.43068), w1)"
  by (simp add: read_raw_value_of_alcohol_def r0_calculate_rs math_pow_def)

text \<open>
  C8. When \<open>r0\<close> is 0, \<open>read_raw_value_of_alcohol\<close> returns exactly 0 and raises nothing,
  whatever resistance the sample gave.
\<close>

theorem C8_zero_r0_guard:
  "r0 w = 0 \<Longrightarrow> calculate_rs w = Inr (r, w1) \<Longrightarrow>
   read_raw_value_of_alcohol w = Inr (0, w1)"
  by (auto simp add: read_raw_value_of_alcohol_def calculate_rs_cases mq3_pin_read_def Let_def
        split: if_splits)

theorem C8_zero_r0_guard_witness:
  "r0 ((mock_sensor [2000])\<lparr>r0 := 0\<rparr>) = 0
   \<and> calculate_rs ((mock_sensor [2000])\<lparr>r0 := 0\<rparr>) =
       Inr (2095 / 2, snd (mq3_pin_read ((mock_sensor [2000])\<lparr>r0 := 0\<rparr>)))
   \<and> read_raw_value_of_alcohol ((mock_sensor [2000])\<lparr>r0 := 0\<rparr>) =
       Inr (0, snd (mq3_pin_read ((mock_sensor [2000])\<lparr>r0 := 0\<rparr>)))"
proof -
  have a: "r0 ((mock_sensor [2000])\<lparr>r0 := 0\<rparr>) = 0"
    by simp
  have b: "calculate_rs ((mock_sensor [2000])\<lparr>r0 := 0\<rparr>) =
       Inr (2095 / 2, snd (mq3_pin_read ((mock_sensor [2000])\<lparr>r0 := 0\<rparr>)))"
    by (simp add: calculate_rs_cases mock_defs resistance_simp)
  show ?thesis
    using a b C8_zero_r0_guard [OF a b] by simp
qed

text \<open>
  C10. For a fixed \<open>r0 > 0\<close> and resistances \<open>0 < rs1 < rs2\<close>, the concentration returned
  is \<open>0.4 * (rs / r0) ^ (-1.43068)\<close>, it is strictly positive, and the higher resistance
  gives the strictly lower concentration.
\<close>

theorem C10_monotone:
  assumes "0 < r0 w" and "r0 v = r0 w"
    and "calculate_rs w = Inr (rs1, w1)" and "calculate_rs v = Inr (rs2, v1)"
    and "0 < rs1" and "rs1 < rs2"
  shows "read_raw_value_of_alcohol w = Inr (0.4 * (rs1 / r0 w) powr (- 1.43068), w1)
       \<and> read_raw_value_of_alcohol v = Inr (0.4 * (rs2 / r0 w) powr (- 1.43068), v1)
       \<and> 0 < 0.4 * (rs2 / r0 w) powr (- 1.43068)
       \<and> 0.4 * (rs2 / r0 w) powr (- 1.43068) < 0.4 * (rs1 / r0 w) powr (- 1.43068)"
proof -
  have a: "read_raw_value_of_alcohol w = Inr (0.4 * (rs1 / r0 w) powr (- 1.43068), w1)"
    using assms by (simp add: read_raw_positive)
  have b: "read_raw_value_of_alcohol v = Inr (0.4 * (rs2 / r0 w) powr (- 1.43068), v1)"
    using assms read_raw_positive [of v rs2 v1] by simp
  have "0 < rs1 / r0 w" "rs1 / r0 w < rs2 / r0 w"
    using assms by (simp_all add: divide_strict_right_mono)
  then have c: "(rs2 / r0 w) powr (- 1.43068) < (rs1 / r0 w) powr (- 1.43068)"
    by (intro powr_less_mono2_neg) simp_all
  have d: "0 < (rs2 / r0 w) powr (- 1.43068)"
    using assms by simp
  show ?thesis using a b c d by simp
qed

theorem C10_monotone_witness:
  "0 < r0 (mock_sensor [3000]) \<and> r0 (mock_sensor [2000]) = r0 (mock_sensor [3000])
   \<and> calculate_rs (mock_sensor [3000]) = Inr (365, snd (mq3_pin_read (mock_sensor [3000])))
   \<and> calculate_rs (mock_sensor [2000]) = Inr (2095 / 2, snd (mq3_pin_read (mock_sensor [2000])))
   \<and> (0::real) < 365 \<and> (365::real) < 2095 / 2
   \<and> 0 < 0.4 * ((2095 / 2) / r0 (mock_sensor [3000])) powr (- 1.43068)
   \<and> 0.4 * ((2095 / 2) / r0 (mock_sensor [3000])) powr (- 1.43068)
       < 0.4 * (365 / r0 (mock_sensor [3000])) powr (- 1.43068)"
proof -
  have a: "0 < r0 (mock_sensor [3000])" "r0 (mock_sensor [2000]) = r0 (mock_sensor [3000])"
    by (simp_all add: mock_defs)
  have b: "calculate_rs (mock_sensor [3000]) = Inr (365, snd (mq3_pin_read (mock_sensor [3000])))"
    by (simp add: calculate_rs_cases mock_defs resistance_simp)
  have c: "calculate_rs (mock_sensor [2000]) = Inr (2095 / 2, snd (mq3_pin_read (mock_sensor [2000])))"
    by (simp add: calculate_rs_cases mock_defs resistance_simp)
  have d: "(0::real) < 365" "(365::real) < 2095 / 2"
    by simp_all
  show ?thesis
    using a b c C10_monotone [OF a b c d] by simp
qed

subsection \<open>Calibration\<close>

lemma calibrate_loop_returns:
  "\<forall>i<n. adc w (reading_index w + i) \<noteq> 0 \<Longrightarrow>
   calibrate_loop n s w =
     Inr (s + (\<Sum>i<n. resistance (adc w (reading_index w + i)) / AIR_R0_RATIO),
          w\<lparr>clock := clock w + real n * 0.1,
            reading_index := reading_index w + n,
            trace := trace w @ map (\<lambda>i. AdcRead (adc w (reading_index w + i))) [0..<n]\<rparr>)"
proof (induction n arbitrary: s w)
  case 0
  then show ?case by simp
next
  case (Suc n)
  let ?w1 = "utime_sleep 0.1 (snd (mq3_pin_read w))"
  have nz: "adc w (reading_index w) \<noteq> 0"
    using Suc.prems by auto
  have rest: "\<forall>i<n. adc ?w1 (reading_index ?w1 + i) \<noteq> 0"
  proof (intro allI impI)
    fix i assume "i < n"
    then have "adc w (reading_index w + Suc i) \<noteq> 0"
      using Suc.prems by auto
    then show "adc ?w1 (reading_index ?w1 + i) \<noteq> 0"
      by (simp add: utime_sleep_def mq3_pin_read_def Let_def)
  qed
  have "calibrate_loop (Suc n) s w =
          calibrate_loop n (s + resistance (adc w (reading_index w)) / AIR_R0_RATIO) ?w1"
    using nz by (simp add: calculate_rs_cases)
  also note Suc.IH [OF rest]
  finally show ?case
    by (simp add: utime_sleep_def mq3_pin_read_def Let_def sum.lessThan_Suc_shift
          upt_conv_Cons map_Suc_upt [symmetric] del: upt_Suc sum.lessThan_Suc
          add: algebra_simps)
qed

lemma calibrate_loop_raises:
  "i < n \<Longrightarrow> adc w (reading_index w + i) = 0 \<Longrightarrow>
   \<exists>w'. calibrate_loop n s w = Inl (ZeroDivisionError, w') \<and> r0 w' = r0 w"
proof (induction n arbitrary: s w i)
  case 0
  then show ?case by simp
next
  case (Suc n)
  show ?case
  proof (cases "adc w (reading_index w) = 0")
    case True
    then show ?thesis
      by (simp add: calculate_rs_cases mq3_pin_read_def Let_def)
  next
    case False
    let ?w1 = "utime_sleep 0.1 (snd (mq3_pin_read w))"
    from False Suc.prems obtain j where j: "i = Suc j" "j < n"
      by (cases i) auto
    have "adc ?w1 (reading_index ?w1 + j) = 0"
      using Suc.prems j by (simp add: utime_sleep_def mq3_pin_read_def Let_def)
    from Suc.IH [OF j(2) this]
    obtain w' where "calibrate_loop n (s + resistance (adc w (reading_index w)) / AIR_R0_RATIO) ?w1
        = Inl (ZeroDivisionError, w')" "r0 w' = r0 ?w1"
      by blast
    then show ?thesis
      using False by (simp add: calculate_rs_cases utime_sleep_def mq3_pin_read_def Let_def)
  qed
qed

lemma calibrate_returns:
  assumes "\<forall>i<NUM_CALIBRATION_READINGS. adc w (reading_index w + i) \<noteq> 0"
  shows "calibrate w =
     Inr (w\<lparr>clock := clock w + 3,
            reading_index := reading_index w + NUM_CALIBRATION_READINGS,
            trace := trace w @ [Display (Text ''Calibrating...'') 0 0 True]
                     @ map (\<lambda>i. AdcRead (adc w (reading_index w + i)))
                         [0..<NUM_CALIBRATION_READINGS]
                     @ [Display (Text ''Calibration done'') 0 0 True],
            r0 := (\<Sum>i<NUM_CALIBRATION_READINGS.
                     resistance (adc w (reading_index w + i)) / AIR_R0_RATIO)
                  / real NUM_CALIBRATION_READINGS\<rparr>)"
proof -
  let ?w0 = "display_message (Text ''Calibrating...'') 0 0 True w"
  have "\<forall>i<NUM_CALIBRATION_READINGS. adc ?w0 (reading_index ?w0 + i) \<noteq> 0"
    using assms by (simp add: display_message_def)
  note loop = calibrate_loop_returns
    [where n = NUM_CALIBRATION_READINGS and w = ?w0 and s = 0, OF this]
  have t: "real NUM_CALIBRATION_READINGS = 10"
    by (simp add: NUM_CALIBRATION_READINGS_def)
  show ?thesis
    unfolding calibrate_def loop
    by (simp add: display_message_def utime_sleep_def t)
qed

lemma calibrate_raises:
  assumes "i < NUM_CALIBRATION_READINGS" and "adc w (reading_index w + i) = 0"
  shows "\<exists>w'. calibrate w = Inl (ZeroDivisionError, w') \<and> r0 w' = r0 w"
proof -
  let ?w0 = "display_message (Text ''Calibrating...'') 0 0 True w"
  have "adc ?w0 (reading_index ?w0 + i) = 0"
    using assms by (simp add: display_message_def)
  from calibrate_loop_raises [where s = 0, OF assms(1) this]
  show ?thesis
    by (auto simp add: calibrate_def display_message_def)
qed

lemma resistance_nonneg: "1 \<le> s \<Longrightarrow> s \<le> 4095 \<Longrightarrow> 0 \<le> resistance s"
  by (simp add: resistance_simp field_simps)

lemma resistance_zero_iff: "1 \<le> s \<Longrightarrow> resistance s = 0 \<longleftrightarrow> s = 4095"
  by (auto simp add: resistance_simp field_simps)

text \<open>
  C5, as amended. Before any calibration \<open>r0\<close> is 1.0. When the ten samples that
  \<open>calibrate\<close> reads are all between 1 and 4095, it completes with \<open>r0 \<ge> 0\<close>, and \<open>r0\<close> is
  0 exactly when all ten samples are 4095 (so \<open>r0 > 0\<close> as soon as one sample is below
  4095). When one of the ten samples is 0, \<open>calibrate\<close> raises \<open>ZeroDivisionError\<close> and
  leaves \<open>r0\<close> as it was.
\<close>

theorem C5_r0_after_calibration:
  "r0 (main_start t pin samples) = 1.0
   \<and> ((\<forall>i<NUM_CALIBRATION_READINGS.
          1 \<le> adc w (reading_index w + i) \<and> adc w (reading_index w + i) \<le> 4095) \<longrightarrow>
        (\<exists>w'. calibrate w = Inr w' \<and> 0 \<le> r0 w'
           \<and> (r0 w' = 0 \<longleftrightarrow>
                (\<forall>i<NUM_CALIBRATION_READINGS. adc w (reading_index w + i) = 4095))))
   \<and> ((\<exists>i<NUM_CALIBRATION_READINGS. adc w (reading_index w + i) = 0) \<longrightarrow>
        (\<exists>w'. calibrate w = Inl (ZeroDivisionError, w') \<and> r0 w' = r0 w))"
proof (intro conjI impI)
  show "r0 (main_start t pin samples) = 1.0"
    by (simp add: main_start_def)
next
  assume range: "\<forall>i<NUM_CALIBRATION_READINGS.
          1 \<le> adc w (reading_index w + i) \<and> adc w (reading_index w + i) \<le> 4095"
  let ?f = "\<lambda>i. resistance (adc w (reading_index w + i)) / AIR_R0_RATIO"
  have nz: "\<forall>i<NUM_CALIBRATION_READINGS. adc w (reading_index w + i) \<noteq> 0"
    using range by fastforce
  have nonneg: "\<And>i. i \<in> {..<NUM_CALIBRATION_READINGS} \<Longrightarrow> 0 \<le> ?f i"
    using range resistance_nonneg by (simp add: AIR_R0_RATIO_def)
  have "sum ?f {..<NUM_CALIBRATION_READINGS} = 0 \<longleftrightarrow>
          (\<forall>i\<in>{..<NUM_CALIBRATION_READINGS}. ?f i = 0)"
    using nonneg by (intro sum_nonneg_eq_0_iff) simp_all
  also have "\<dots> \<longleftrightarrow> (\<forall>i<NUM_CALIBRATION_READINGS. adc w (reading_index w + i) = 4095)"
    using range resistance_zero_iff by (auto simp add: AIR_R0_RATIO_def)
  finally have zero: "sum ?f {..<NUM_CALIBRATION_READINGS} = 0 \<longleftrightarrow>
      (\<forall>i<NUM_CALIBRATION_READINGS. adc w (reading_index w + i) = 4095)" .
  have "0 \<le> sum ?f {..<NUM_CALIBRATION_READINGS}"
    using nonneg by (rule sum_nonneg)
  moreover have "0 < real NUM_CALIBRATION_READINGS"
    by (simp add: NUM_CALIBRATION_READINGS_def)
  ultimately show "\<exists>w'. calibrate w = Inr w' \<and> 0 \<le> r0 w'
           \<and> (r0 w' = 0 \<longleftrightarrow>
                (\<forall>i<NUM_CALIBRATION_READINGS. adc w (reading_index w + i) = 4095))"
    using zero by (simp add: calibrate_returns [OF nz])
next
  assume "\<exists>i<NUM_CALIBRATION_READINGS. adc w (reading_index w + i) = 0"
  then show "\<exists>w'. calibrate w = Inl (ZeroDivisionError, w') \<and> r0 w' = r0 w"
    using calibrate_raises by blast
qed

lemma mock_adc_single: "mock_adc [c] i = c"
  by (simp add: mock_adc_def)

text \<open>
  C5 as stated fails: with every sample 4095 calibration ends with \<open>r0 = 0\<close>, and with
  a sample 0 it does not complete.
\<close>

theorem C5_counterexample:
  "map_sum fst r0 (calibrate (mock_sensor [4095])) = Inr 0
   \<and> map_sum fst r0 (calibrate (mock_sensor [0])) = Inl ZeroDivisionError"
proof -
  have "\<forall>i<NUM_CALIBRATION_READINGS.
      adc (mock_sensor [4095]) (reading_index (mock_sensor [4095]) + i) \<noteq> 0"
    by (simp add: mock_sensor_def main_start_def mock_adc_single)
  from calibrate_returns [OF this]
  have a: "map_sum fst r0 (calibrate (mock_sensor [4095])) = Inr 0"
    by (simp add: mock_sensor_def main_start_def mock_adc_single resistance_simp)
  have "adc (mock_sensor [0]) (reading_index (mock_sensor [0]) + 0) = 0"
    by (simp add: mock_sensor_def main_start_def mock_adc_single)
  from calibrate_raises [OF _ this]
  have b: "map_sum fst r0 (calibrate (mock_sensor [0])) = Inl ZeroDivisionError"
    by (auto simp add: NUM_CALIBRATION_READINGS_def)
  show ?thesis using a b by simp
qed

theorem C5_r0_after_calibration_witness:
  "(\<forall>i. 1 \<le> adc (mock_sensor [2000]) (reading_index (mock_sensor [2000]) + i)
      \<and> adc (mock_sensor [2000]) (reading_index (mock_sensor [2000]) + i) \<le> 4095)
   \<and> (\<exists>w'. calibrate (mock_sensor [2000]) = Inr w' \<and> 0 < r0 w')
   \<and> (\<exists>i<NUM_CALIBRATION_READINGS.
         adc (mock_sensor [0]) (reading_index (mock_sensor [0]) + i) = 0)
   \<and> (\<exists>w'. calibrate (mock_sensor [0]) = Inl (ZeroDivisionError, w'))"
proof -
  have a: "\<forall>i. 1 \<le> adc (mock_sensor [2000]) (reading_index (mock_sensor [2000]) + i)
      \<and> adc (mock_sensor [2000]) (reading_index (mock_sensor [2000]) + i) \<le> 4095"
    by (simp add: mock_sensor_def main_start_def mock_adc_single)
  have b: "\<exists>i<NUM_CALIBRATION_READINGS.
         adc (mock_sensor [0]) (reading_index (mock_sensor [0]) + i) = 0"
    by (intro exI [of _ 0])
      (simp add: mock_sensor_def main_start_def mock_adc_single NUM_CALIBRATION_READINGS_def)
  have c: "\<not> (\<forall>i<NUM_CALIBRATION_READINGS.
      adc (mock_sensor [2000]) (reading_index (mock_sensor [2000]) + i) = 4095)"
    by (auto simp add: mock_sensor_def main_start_def mock_adc_single
          NUM_CALIBRATION_READINGS_def intro: exI [of _ 0])
  from C5_r0_after_calibration [of 0 "\<lambda>t. 1" "mock_adc [2000]" "mock_sensor [2000]"] a c
  have d: "\<exists>w'. calibrate (mock_sensor [2000]) = Inr w' \<and> 0 < r0 w'"
    by force
  from C5_r0_after_calibration [of 0 "\<lambda>t. 1" "mock_adc [0]" "mock_sensor [0]"] b
  have e: "\<exists>w'. calibrate (mock_sensor [0]) = Inl (ZeroDivisionError, w')"
    by blast
  show ?thesis using a b d e by blast
qed

lemma mock_adc_replicate: "0 < n \<Longrightarrow> mock_adc (replicate n c) i = c"
  by (simp add: mock_adc_def)

text \<open>
  What \<open>calibrate\<close> does when none of the next ten samples is 0: it reads exactly
  \<open>NUM_CALIBRATION_READINGS = 10\<close> samples, sets \<open>r0\<close> to the mean of their resistances
  divided by \<open>AIR_R0_RATIO = 60\<close>, and shows \<open>Calibrating...\<close> before the reads and
  \<open>Calibration done\<close> after them.
\<close>

lemma calibrate_mean:
  assumes "\<forall>i<NUM_CALIBRATION_READINGS. adc w (reading_index w + i) \<noteq> 0"
  shows "\<exists>w'. calibrate w = Inr w'
     \<and> NUM_CALIBRATION_READINGS = 10 \<and> AIR_R0_RATIO = 60
     \<and> reading_index w' = reading_index w + NUM_CALIBRATION_READINGS
     \<and> r0 w' = (\<Sum>i<NUM_CALIBRATION_READINGS.
                   resistance (adc w (reading_index w + i)) / AIR_R0_RATIO)
                / real NUM_CALIBRATION_READINGS
     \<and> trace w' = trace w @ [Display (Text ''Calibrating...'') 0 0 True]
                   @ map (\<lambda>i. AdcRead (adc w (reading_index w + i)))
                       [0..<NUM_CALIBRATION_READINGS]
                   @ [Display (Text ''Calibration done'') 0 0 True]
     \<and> ((\<forall>i<NUM_CALIBRATION_READINGS. adc w (reading_index w + i) = 2000) \<longrightarrow>
          resistance 2000 = 1047.5 \<and> r0 w' = 1047.5 / AIR_R0_RATIO)"
proof -
  have "(\<forall>i<NUM_CALIBRATION_READINGS. adc w (reading_index w + i) = 2000) \<longrightarrow>
     (\<Sum>i<NUM_CALIBRATION_READINGS. resistance (adc w (reading_index w + i)) / AIR_R0_RATIO)
       / real NUM_CALIBRATION_READINGS = 1047.5 / AIR_R0_RATIO"
    by (simp add: resistance_simp NUM_CALIBRATION_READINGS_def)
  moreover have "resistance 2000 = 1047.5"
    by (simp add: resistance_simp)
  ultimately show ?thesis
    by (simp add: calibrate_returns [OF assms] NUM_CALIBRATION_READINGS_def AIR_R0_RATIO_def)
qed

text \<open>
  C2. The claim takes its value from test\_sensor.py, which expects \<open>r0\<close> within 1.0 of
  \<open>3900.0 / AIR_R0_RATIO = 65\<close> after calibrating on the constant sample 2000. On that
  input \<open>calibrate\<close> reads ten samples and shows its two messages in order, as claimed,
  but the resistance of the sample 2000 is 1047.5, so \<open>r0\<close> is \<open>1047.5 / 60\<close> (about
  17.458): within 1.0 of what the formula gives, and not within 1.0 of 65.
\<close>

theorem C2_constant_sample:
  "map_sum fst (\<lambda>w. (r0 w, reading_index w, trace w))
     (calibrate (mock_sensor (replicate NUM_CALIBRATION_READINGS 2000)))
     = Inr (1047.5 / 60, 10,
            Display (Text ''Calibrating...'') 0 0 True # replicate 10 (AdcRead 2000)
            @ [Display (Text ''Calibration done'') 0 0 True])
   \<and> approx_equal (1047.5 / 60) (1047.5 / AIR_R0_RATIO) 1.0
   \<and> \<not> approx_equal (1047.5 / 60) (3900.0 / AIR_R0_RATIO) 1.0"
proof -
  let ?w = "mock_sensor (replicate NUM_CALIBRATION_READINGS 2000)"
  have s: "\<And>i. adc ?w (reading_index ?w + i) = 2000"
    by (simp add: mock_sensor_def main_start_def mock_adc_replicate NUM_CALIBRATION_READINGS_def)
  have a: "\<forall>i<NUM_CALIBRATION_READINGS. adc ?w (reading_index ?w + i) \<noteq> 0"
    by (simp add: s)
  have m: "map (\<lambda>i. AdcRead 2000) [0..<10] = replicate 10 (AdcRead 2000)"
    by (simp add: map_replicate_const)
  have "map_sum fst (\<lambda>w. (r0 w, reading_index w, trace w)) (calibrate ?w)
     = Inr (1047.5 / 60, 10,
            Display (Text ''Calibrating...'') 0 0 True # replicate 10 (AdcRead 2000)
            @ [Display (Text ''Calibration done'') 0 0 True])"
    unfolding calibrate_returns [OF a] s
    by (simp add: m resistance_simp NUM_CALIBRATION_READINGS_def AIR_R0_RATIO_def
        mock_sensor_def main_start_def)
  moreover have "approx_equal (1047.5 / 60) (1047.5 / AIR_R0_RATIO) 1.0"
    "\<not> approx_equal (1047.5 / 60) (3900.0 / AIR_R0_RATIO) 1.0"
    by (simp_all add: approx_equal_def AIR_R0_RATIO_def)
  ultimately show ?thesis by simp
qed

section \<open>The control loop\<close>

subsection \<open>Traces\<close>

lemma state_after_append: "state_after s (es @ fs) = state_after (state_after s es) fs"
  by (induction s es rule: state_after.induct) simp_all

lemma io_states_append:
  "io_states s (es @ fs) = io_states s es @ io_states (state_after s es) fs"
  by (induction s es rule: io_states.induct) simp_all

lemma state_changes_append: "state_changes (es @ fs) = state_changes es @ state_changes fs"
  by (induction es rule: state_changes.induct) simp_all

lemma state_after_io: "list_all is_io es \<Longrightarrow> state_after s es = s"
  by (induction s es rule: state_after.induct) simp_all

lemma io_states_io: "list_all is_io es \<Longrightarrow> io_states s es = map (Pair s) es"
  by (induction s es rule: io_states.induct) simp_all

lemma state_changes_io: "list_all is_io es \<Longrightarrow> state_changes es = []"
  by (induction es rule: state_changes.induct) simp_all

lemma calibrate_event_io: "calibrate_event e \<Longrightarrow> is_io e"
  by (cases e) simp_all

lemma calibrate_events_io: "list_all calibrate_event es \<Longrightarrow> list_all is_io es"
  by (induction es) (simp_all add: calibrate_event_io)

subsection \<open>What the sensor methods add to the trace\<close>

lemma calibrate_loop_final:
  "\<exists>vs. trace (world_of (calibrate_loop n s w)) = trace w @ map AdcRead vs
        \<and> state (world_of (calibrate_loop n s w)) = state w"
proof (induction n arbitrary: s w)
  case 0
  show ?case by (simp add: world_of_def)
next
  case (Suc n)
  show ?case
  proof (cases "adc w (reading_index w) = 0")
    case True
    then have "trace (world_of (calibrate_loop (Suc n) s w)) = trace w @ map AdcRead [0]"
      "state (world_of (calibrate_loop (Suc n) s w)) = state w"
      by (simp_all add: calculate_rs_cases mq3_pin_read_def world_of_def Let_def)
    then show ?thesis by blast
  next
    case False
    let ?w1 = "utime_sleep 0.1 (snd (mq3_pin_read w))"
    let ?s1 = "s + resistance (adc w (reading_index w)) / AIR_R0_RATIO"
    have step: "calibrate_loop (Suc n) s w = calibrate_loop n ?s1 ?w1"
      using False by (simp add: calculate_rs_cases)
    from Suc.IH [of ?s1 ?w1] obtain vs where
      "trace (world_of (calibrate_loop n ?s1 ?w1)) = trace ?w1 @ map AdcRead vs"
      "state (world_of (calibrate_loop n ?s1 ?w1)) = state ?w1"
      by blast
    then have "trace (world_of (calibrate_loop (Suc n) s w))
        = trace w @ map AdcRead (adc w (reading_index w) # vs)"
      "state (world_of (calibrate_loop (Suc n) s w)) = state w"
      unfolding step by (simp_all add: utime_sleep_def mq3_pin_read_def Let_def)
    then show ?thesis by blast
  qed
qed

lemma calibrate_final:
  "\<exists>new. trace (final (calibrate w)) = trace w @ new \<and> list_all calibrate_event new
        \<and> new \<noteq> [] \<and> hd new = Display (Text ''Calibrating...'') 0 0 True
        \<and> state (final (calibrate w)) = state w"
proof -
  let ?w0 = "display_message (Text ''Calibrating...'') 0 0 True w"
  let ?r = "calibrate_loop NUM_CALIBRATION_READINGS 0 ?w0"
  obtain vs where vs: "trace (world_of ?r) = trace ?w0 @ map AdcRead vs"
    "state (world_of ?r) = state ?w0"
    using calibrate_loop_final by blast
  have reads: "list_all calibrate_event (map AdcRead vs)"
    by (simp add: list_all_iff)
  show ?thesis
  proof (cases ?r)
    case (Inl a)
    then have "trace (final (calibrate w))
        = trace w @ (Display (Text ''Calibrating...'') 0 0 True # map AdcRead vs)"
      "state (final (calibrate w)) = state w"
      using vs by (simp_all add: calibrate_def final_def world_of_def display_message_def
          split: prod.splits)
    then show ?thesis using reads by (intro exI conjI) (assumption | simp)+
  next
    case (Inr b)
    then have "trace (final (calibrate w))
        = trace w @ (Display (Text ''Calibrating...'') 0 0 True # map AdcRead vs
                     @ [Display (Text ''Calibration done'') 0 0 True])"
      "state (final (calibrate w)) = state w"
      using vs by (simp_all add: calibrate_def final_def world_of_def display_message_def
          utime_sleep_def split: prod.splits)
    then show ?thesis using reads by (intro exI conjI) (assumption | simp)+
  qed
qed

lemma fold_warm_up_tick:
  "fold warm_up_tick [0..<n] w =
     w\<lparr>clock := clock w + real n,
       trace := trace w @ map (\<lambda>i. Display (Text (replicate i (CHR ''.''))) 0 20 False) [0..<n]\<rparr>"
  by (induction n) (simp_all add: warm_up_tick_def utime_sleep_def display_message_def)

lemma warm_up_final:
  "\<exists>new. trace (final (warm_up w)) = trace w @ new \<and> list_all is_io new
        \<and> state (final (warm_up w)) = state w"
proof -
  let ?w0 = "fold warm_up_tick [0..<WARM_UP_TIME]
               (display_message (Text ''Warming up...'') 0 0 True w)"
  obtain new where new: "trace (final (calibrate ?w0)) = trace ?w0 @ new"
    "list_all calibrate_event new" "state (final (calibrate ?w0)) = state ?w0"
    using calibrate_final by blast
  let ?dots = "map (\<lambda>i. Display (Text (replicate i (CHR ''.''))) 0 20 False) [0..<WARM_UP_TIME]"
  have "trace (final (warm_up w))
      = trace w @ (Display (Text ''Warming up...'') 0 0 True # ?dots @ new)"
    "state (final (warm_up w)) = state w"
    using new by (simp_all add: warm_up_def fold_warm_up_tick display_message_def)
  moreover have "list_all is_io (Display (Text ''Warming up...'') 0 0 True # ?dots @ new)"
    using new(2) by (auto simp add: list_all_iff calibrate_event_io)
  ultimately show ?thesis by blast
qed

lemma get_smoothed_reading_final:
  "\<exists>new. trace (world_of (get_smoothed_reading w)) = trace w @ new \<and> list_all is_io new
        \<and> state (world_of (get_smoothed_reading w)) = state w"
proof -
  have "trace (world_of (get_smoothed_reading w)) = trace w @ [AdcRead (adc w (reading_index w))]"
    "state (world_of (get_smoothed_reading w)) = state w"
    by (simp_all add: get_smoothed_reading_def read_raw_value_of_alcohol_def calculate_rs_cases
        mq3_pin_read_def world_of_def Let_def split: sum.splits)
  then show ?thesis by (intro exI [of _ "[AdcRead (adc w (reading_index w))]"]) simp
qed

subsection \<open>Consistency of the trace\<close>

lemma consistent_io:
  assumes "consistent w" and "trace w' = trace w @ new" and "list_all is_io new"
    and "state w' = state w" and "\<forall>e\<in>set new. permitted (state w, e)"
  shows "consistent w'"
  using assms
  by (auto simp add: consistent_def io_states_append state_after_append io_states_io
      state_after_io list_all_iff)

lemma consistent_set_state: "consistent w \<Longrightarrow> consistent (set_state s w)"
  by (simp add: consistent_def set_state_def io_states_append state_after_append)

lemma permitted_ON: "state w = ON \<Longrightarrow> \<forall>e\<in>set new. permitted (state w, e)"
  by simp

lemma consistent_fields:
  "trace w' = trace w \<Longrightarrow> state w' = state w \<Longrightarrow> consistent w' = consistent w"
  by (simp add: consistent_def)

lemma main_button_consistent:
  assumes "consistent w" and "state w \<noteq> CALIBRATING"
  shows "consistent (final (main_button d w))
       \<and> (\<forall>w'. main_button d w = Inr w' \<longrightarrow> state w' \<noteq> CALIBRATING)"
proof -
  consider (idle) "\<not> 0 < d \<or> (d < LONG_PRESS_TIME \<and> state w \<noteq> ON)"
    | (on) "0 < d" "LONG_PRESS_TIME \<le> d" "state w = OFF"
    | (off) "0 < d" "LONG_PRESS_TIME \<le> d" "state w \<noteq> OFF"
    | (short) "0 < d" "d < LONG_PRESS_TIME" "state w = ON"
    by fastforce
  then show ?thesis
  proof cases
    case idle
    then have "main_button d w = Inr w"
      by (auto simp add: main_button_def)
    then show ?thesis using assms by (simp add: final_def)
  next
    case on
    let ?w0 = "set_state ON w"
    obtain new where new: "trace (final (warm_up ?w0)) = trace ?w0 @ new" "list_all is_io new"
      "state (final (warm_up ?w0)) = state ?w0"
      using warm_up_final by blast
    have w0: "consistent ?w0" "state ?w0 = ON"
      using assms by (simp_all add: consistent_set_state) (simp add: set_state_def)
    have c: "consistent (final (warm_up ?w0))"
      using w0 new by (intro consistent_io [OF w0(1) new(1) new(2)]) simp_all
    show ?thesis
    proof (cases "warm_up ?w0")
      case (Inl a)
      then have "final (main_button d w) = final (warm_up ?w0)"
        "\<forall>w'. main_button d w \<noteq> Inr w'"
        using on by (simp_all add: main_button_def final_def)
      then show ?thesis using c by simp
    next
      case (Inr w1)
      then have w1: "consistent w1" "state w1 = ON"
        using c new(3) w0(2) by (simp_all add: final_def)
      let ?w2 = "utime_sleep 1 (display_message (Text ''ON'') 0 0 True w1)"
      have mb: "main_button d w = Inr ?w2"
        using on Inr w1(2) by (simp add: main_button_def)
      have "consistent ?w2"
        using w1 by (intro consistent_io [OF w1(1), of _ "[Display (Text ''ON'') 0 0 True]"])
          (simp_all add: utime_sleep_def display_message_def)
      moreover have "state ?w2 = ON"
        using w1 by (simp add: utime_sleep_def display_message_def)
      ultimately show ?thesis by (simp add: mb final_def)
    qed
  next
    case off
    let ?w0 = "set_state OFF w"
    let ?w2 = "utime_sleep 1 (display_message (Text ''OFF'') 0 0 True ?w0)"
    have w0: "consistent ?w0" "state ?w0 = OFF"
      using assms by (simp_all add: consistent_set_state) (simp add: set_state_def)
    have mb: "main_button d w = Inr ?w2"
      using off by (simp add: main_button_def set_state_def)
    have "consistent ?w2"
      using w0 by (intro consistent_io [OF w0(1), of _ "[Display (Text ''OFF'') 0 0 True]"])
        (simp_all add: utime_sleep_def display_message_def)
    moreover have "state ?w2 = OFF"
      by (simp add: utime_sleep_def display_message_def set_state_def)
    ultimately show ?thesis by (simp add: mb final_def)
  next
    case short
    let ?w0 = "set_state CALIBRATING w"
    obtain new where new: "trace (final (calibrate ?w0)) = trace ?w0 @ new"
      "list_all calibrate_event new" "state (final (calibrate ?w0)) = state ?w0"
      using calibrate_final by blast
    have w0: "consistent ?w0" "state ?w0 = CALIBRATING"
      using assms by (simp_all add: consistent_set_state) (simp add: set_state_def)
    have c: "consistent (final (calibrate ?w0))"
      using w0 new
      by (intro consistent_io [OF w0(1) new(1)])
        (auto simp add: calibrate_event_io list_all_iff)
    show ?thesis
    proof (cases "calibrate ?w0")
      case (Inl a)
      then have "final (main_button d w) = final (calibrate ?w0)"
        "\<forall>w'. main_button d w \<noteq> Inr w'"
        using short by (simp_all add: main_button_def final_def LONG_PRESS_TIME_def)
      then show ?thesis using c by simp
    next
      case (Inr w1)
      then have w1: "consistent w1"
        using c by (simp add: final_def)
      have mb: "main_button d w = Inr (set_state ON w1)"
        using short Inr by (simp add: main_button_def LONG_PRESS_TIME_def)
      show ?thesis
        using w1 by (simp add: mb final_def consistent_set_state) (simp add: set_state_def)
    qed
  qed
qed

lemma main_reading_final:
  "\<exists>new. trace (final (main_reading w)) = trace w @ new \<and> list_all is_io new
        \<and> (state w \<noteq> ON \<longrightarrow> new = [])
        \<and> state (final (main_reading w)) = state w"
proof (cases "state w = ON \<and> utime_time w - last_reading_time w \<ge> reading_interval")
  case False
  then have "main_reading w = Inr w"
    by (auto simp add: main_reading_def Let_def)
  then show ?thesis by (simp add: final_def)
next
  case True
  obtain new where new: "trace (world_of (get_smoothed_reading w)) = trace w @ new"
    "list_all is_io new" "state (world_of (get_smoothed_reading w)) = state w"
    using get_smoothed_reading_final by blast
  show ?thesis
  proof (cases "get_smoothed_reading w")
    case (Inl a)
    then have "final (main_reading w) = world_of (get_smoothed_reading w)"
      using True by (simp add: main_reading_def final_def world_of_def Let_def)
    then show ?thesis using new True by auto
  next
    case (Inr b)
    obtain raw w1 where b: "b = (raw, w1)" by (cases b)
    have w1: "trace w1 = trace w @ new" "state w1 = state w"
      using new Inr b by (simp_all add: world_of_def)
    let ?lines = "[Display (RawLine raw) 0 0 True,
        Display (PpmLine (convert_raw_to_ppm raw)) 0 16 False,
        Display (BacLine (convert_raw_to_bac raw)) 0 32 False,
        Display (GmlLine (convert_raw_to_gram_per_millilitre raw)) 0 48 False]"
    have "trace (final (main_reading w)) = trace w @ (new @ ?lines)"
      "state (final (main_reading w)) = state w"
      using True Inr b w1
      by (simp_all add: main_reading_def final_def Let_def display_message_def)
    moreover have "list_all is_io (new @ ?lines)"
      using new(2) by simp
    ultimately show ?thesis using True by blast
  qed
qed

lemma main_reading_consistent:
  assumes "consistent w"
  shows "consistent (final (main_reading w)) \<and> state (final (main_reading w)) = state w"
proof -
  obtain new where new: "trace (final (main_reading w)) = trace w @ new" "list_all is_io new"
    "state w \<noteq> ON \<longrightarrow> new = []" "state (final (main_reading w)) = state w"
    using main_reading_final by blast
  have "\<forall>e\<in>set new. permitted (state w, e)"
    using new(3) by (cases "state w = ON") simp_all
  from consistent_io [OF assms new(1) new(2) new(4) this] new(4)
  show ?thesis by simp
qed

lemma check_button_fields:
  "trace (snd (check_button w)) = trace w" "state (snd (check_button w)) = state w"
  by (simp_all add: check_button_def Let_def)

lemma main_body_consistent:
  assumes "consistent w" and "state w \<noteq> CALIBRATING"
  shows "consistent (final (main_body w))
       \<and> (\<forall>w'. main_body w = Inr w' \<longrightarrow> state w' \<noteq> CALIBRATING)"
proof -
  obtain d w1 where cb: "check_button w = (d, w1)"
    by (cases "check_button w")
  have w1: "consistent w1" "state w1 \<noteq> CALIBRATING"
    using assms check_button_fields [of w] cb by (simp_all add: consistent_def)
  note b = main_button_consistent [OF w1, of d]
  show ?thesis
  proof (cases "main_button d w1")
    case (Inl a)
    then have "final (main_body w) = final (main_button d w1)" "\<forall>w'. main_body w \<noteq> Inr w'"
      by (simp_all add: main_body_def cb final_def)
    then show ?thesis using b by simp
  next
    case (Inr w2)
    then have w2: "consistent w2" "state w2 \<noteq> CALIBRATING"
      using b by (simp_all add: final_def)
    note r = main_reading_consistent [OF w2(1)]
    show ?thesis
    proof (cases "main_reading w2")
      case (Inl a)
      then have "final (main_body w) = final (main_reading w2)" "\<forall>w'. main_body w \<noteq> Inr w'"
        using Inr by (simp_all add: main_body_def cb final_def)
      then show ?thesis using r by simp
    next
      case (Inr w3)
      then have w3: "consistent w3" "state w3 \<noteq> CALIBRATING"
        using r w2 by (simp_all add: final_def)
      have "main_body w = Inr (utime_sleep 0.1 w3)"
        using Inr \<open>main_button d w1 = Inr w2\<close> by (simp add: main_body_def cb)
      then show ?thesis
        using w3 by (simp add: final_def utime_sleep_def consistent_def)
    qed
  qed
qed

lemma main_loop_consistent:
  "consistent w \<Longrightarrow> state w \<noteq> CALIBRATING \<Longrightarrow>
   consistent (final (main_loop n w))
   \<and> (\<forall>w'. main_loop n w = Inr w' \<longrightarrow> state w' \<noteq> CALIBRATING)"
proof (induction n arbitrary: w)
  case 0
  then show ?case by (simp add: final_def)
next
  case (Suc n)
  note b = main_body_consistent [OF Suc.prems]
  show ?case
  proof (cases "main_body w")
    case (Inl a)
    then show ?thesis using b by (simp add: final_def)
  next
    case (Inr w1)
    then have "consistent w1" "state w1 \<noteq> CALIBRATING"
      using b by (simp_all add: final_def)
    from Suc.IH [OF this] show ?thesis
      using Inr by simp
  qed
qed

lemma main_start_consistent: "consistent (main_start t pin samples)"
  "state (main_start t pin samples) \<noteq> CALIBRATING"
  by (simp_all add: consistent_def main_start_def)

subsection \<open>Warm-up\<close>

lemma warm_up_returns:
  assumes "\<forall>i<NUM_CALIBRATION_READINGS. adc w (reading_index w + i) \<noteq> 0"
  shows "warm_up w =
     Inr (w\<lparr>clock := clock w + 23,
            reading_index := reading_index w + NUM_CALIBRATION_READINGS,
            trace := trace w @ [Display (Text ''Warming up...'') 0 0 True]
                     @ map (\<lambda>i. Display (Text (replicate i (CHR ''.''))) 0 20 False)
                         [0..<WARM_UP_TIME]
                     @ [Display (Text ''Calibrating...'') 0 0 True]
                     @ map (\<lambda>i. AdcRead (adc w (reading_index w + i)))
                         [0..<NUM_CALIBRATION_READINGS]
                     @ [Display (Text ''Calibration done'') 0 0 True],
            r0 := (\<Sum>i<NUM_CALIBRATION_READINGS.
                     resistance (adc w (reading_index w + i)) / AIR_R0_RATIO)
                  / real NUM_CALIBRATION_READINGS\<rparr>)"
proof -
  let ?w0 = "fold warm_up_tick [0..<WARM_UP_TIME]
               (display_message (Text ''Warming up...'') 0 0 True w)"
  have "\<forall>i<NUM_CALIBRATION_READINGS. adc ?w0 (reading_index ?w0 + i) \<noteq> 0"
    using assms by (simp add: fold_warm_up_tick display_message_def)
  note c = calibrate_returns [OF this]
  have t: "real WARM_UP_TIME = 20"
    by (simp add: WARM_UP_TIME_def)
  show ?thesis
    unfolding warm_up_def c
    by (simp add: fold_warm_up_tick display_message_def t)
qed

subsection \<open>Running the scenarios\<close>

lemmas sim_defs = main_body_def check_button_def button_pressed_def utime_time_def
  utime_sleep_def main_button_def main_reading_def LONG_PRESS_TIME_def set_state_def
  display_message_def reading_interval_def Let_def main_start_def warm_up_returns
  calibrate_returns get_smoothed_reading_def read_raw_value_of_alcohol_def calculate_rs_cases
  mq3_pin_read_def math_pow_def resistance_simp NUM_CALIBRATION_READINGS_def AIR_R0_RATIO_def
  final_def after_def

subsection \<open>Input and output in each state\<close>

text \<open>
  C6, as amended. In every execution of the control loop, whether it is still running
  or was stopped by an exception: a measurement line is displayed only while \<open>state\<close> is
  \<open>ON\<close>; while \<open>state\<close> is \<open>OFF\<close> the only input or output is the display of the message
  \<open>OFF\<close>; while it is \<open>CALIBRATING\<close> the only input and output are the sensor reads and
  the two messages of \<open>calibrate\<close>.
\<close>

theorem C6_state_gated_io:
  "(s, e) \<in> set (io_states OFF (trace (after n (main_start t pin samples)))) \<Longrightarrow>
     (measurement_line e \<longrightarrow> s = ON)
     \<and> (s = OFF \<longrightarrow> e = Display (Text ''OFF'') 0 0 True)
     \<and> (s = CALIBRATING \<longrightarrow> calibrate_event e)"
proof -
  assume a: "(s, e) \<in> set (io_states OFF (trace (after n (main_start t pin samples))))"
  have "consistent (after n (main_start t pin samples))"
    using main_loop_consistent [OF main_start_consistent, where n = n]
    by (simp add: after_def)
  then have p: "permitted (s, e)"
    using a by (simp add: consistent_def list_all_iff)
  have "measurement_line e \<Longrightarrow> \<not> calibrate_event e"
    by (cases e rule: measurement_line.cases) simp_all
  then show ?thesis
    using p by (cases s) auto
qed

lemma tap33:
  "(CALIBRATING, AdcRead 2000) \<in> set (io_states OFF (trace (after 33 scenario_tap)))"
  "(CALIBRATING, Display (Text ''Calibrating...'') 0 0 True)
     \<in> set (io_states OFF (trace (after 33 scenario_tap)))"
  "(OFF, Display (Text ''OFF'') 0 0 True) \<in> set (io_states OFF (trace (after 33 scenario_tap)))"
  by (simp_all add: eval_nat_numeral scenario_tap_def sim_defs io_states_append
      state_after_append io_states_io state_after_io list_all_iff)

text \<open>
  C6 as stated fails: in \<open>scenario_tap\<close> the sensor is read and the display is written
  while \<open>state\<close> is \<open>CALIBRATING\<close>, and the display is written while it is \<open>OFF\<close>.
\<close>

theorem C6_counterexample:
  "(CALIBRATING, AdcRead 2000) \<in> set (io_states OFF (trace (after 33 scenario_tap)))
   \<and> (CALIBRATING, Display (Text ''Calibrating...'') 0 0 True)
       \<in> set (io_states OFF (trace (after 33 scenario_tap)))
   \<and> (OFF, Display (Text ''OFF'') 0 0 True)
       \<in> set (io_states OFF (trace (after 33 scenario_tap)))
   \<and> CALIBRATING \<noteq> ON \<and> OFF \<noteq> ON"
  using tap33 by simp

theorem C6_state_gated_io_witness:
  "(CALIBRATING, AdcRead 2000)
     \<in> set (io_states OFF (trace (after 33
          (main_start 1000.95 (\<lambda>t. if t < 1003 \<or> 1027.1 \<le> t then 0 else 1) (\<lambda>i. 2000)))))
   \<and> \<not> measurement_line (AdcRead 2000) \<and> calibrate_event (AdcRead 2000)"
  using tap33(1)
    C6_state_gated_io [of CALIBRATING "AdcRead 2000" 33 "1000.95"
      "\<lambda>t. if t < 1003 \<or> 1027.1 \<le> t then 0 else 1" "\<lambda>i. 2000"]
  by (simp add: scenario_tap_def)

subsection \<open>Long and short presses\<close>

text \<open>The state \<open>CALIBRATING\<close> never lasts beyond an iteration of the loop.\<close>

lemma calibrating_is_transient:
  "main_loop n (main_start t pin samples) = Inr v \<Longrightarrow> state v \<noteq> CALIBRATING"
  using main_loop_consistent [OF main_start_consistent, where n = n] by simp

text \<open>
  C7. The claim expects each long press to toggle the state once, so that three long
  presses from \<open>OFF\<close> give \<open>ON\<close>, \<open>OFF\<close>, \<open>ON\<close>, and a short press while \<open>ON\<close> to come
  back to \<open>ON\<close> without passing through \<open>OFF\<close>. In \<open>scenario_three_presses\<close> each of the
  three five-second presses is acted on twice, once while the button is held and once
  more when its release is seen after the warm-up: the assignments to \<open>state\<close> are \<open>ON\<close>,
  \<open>OFF\<close> after the first press and \<open>ON\<close>, \<open>OFF\<close>, \<open>ON\<close>, \<open>OFF\<close>, \<open>ON\<close>, \<open>OFF\<close> after the third,
  and the device ends \<open>OFF\<close>. In \<open>scenario_late_release\<close> the short press recalibrates
  while the button is held, and the iteration that sees the release assigns \<open>OFF\<close>.
\<close>

theorem C7_long_press_runs:
  "state_changes (trace (after 32 scenario_three_presses)) = [ON, OFF]
   \<and> state_changes (trace (after 62 scenario_three_presses)) = [ON, OFF, ON, OFF]
   \<and> state_changes (trace (after 92 scenario_three_presses)) = [ON, OFF, ON, OFF, ON, OFF]
   \<and> \<not> isl (main_loop 92 scenario_three_presses)
   \<and> state (after 92 scenario_three_presses) = OFF
   \<and> state_changes (trace (after 33 scenario_late_release)) = [ON, CALIBRATING, ON, OFF]"
  by (simp add: eval_nat_numeral scenario_three_presses_def
      scenario_late_release_def sim_defs state_changes_append state_changes_io list_all_iff)

text \<open>
  C4. The claim expects a recalibration only in the iteration that reports the release,
  once for each completed short press. In \<open>scenario_tap\<close> the 32nd iteration finds
  \<open>state\<close> \<open>ON\<close> and the button still held with \<open>d = 1\<close>, and starts a calibration. In
  \<open>scenario_quick_tap\<close> the press of 0.8 seconds falls within one second of the clock:
  its release is reported with \<open>d = 0\<close> and no recalibration runs at all. In
  \<open>scenario_late_release\<close> the press of 1.9 seconds is recalibrated while held, and
  its release is reported with \<open>d = 4\<close>, which switches the device \<open>OFF\<close>.
\<close>

theorem C4_short_press_runs:
  "state (after 31 scenario_tap) = ON
   \<and> button_pressed (after 31 scenario_tap)
   \<and> fst (check_button (after 31 scenario_tap)) = 1
   \<and> take 2 (drop (length (trace (after 31 scenario_tap))) (trace (after 32 scenario_tap)))
       = [SetState CALIBRATING, Display (Text ''Calibrating...'') 0 0 True]
   \<and> state (after 22 scenario_quick_tap) = ON
   \<and> button_pressed (after 22 scenario_quick_tap)
   \<and> button_pressed (after 29 scenario_quick_tap)
   \<and> \<not> button_pressed (after 30 scenario_quick_tap)
   \<and> fst (check_button (after 30 scenario_quick_tap)) = 0
   \<and> state_changes (trace (after 40 scenario_quick_tap)) = [ON]
   \<and> button_pressed (after 31 scenario_late_release)
   \<and> state_changes (trace (after 31 scenario_late_release)) = [ON]
   \<and> state_changes (trace (after 32 scenario_late_release)) = [ON, CALIBRATING, ON]
   \<and> \<not> button_pressed (after 32 scenario_late_release)
   \<and> fst (check_button (after 32 scenario_late_release)) = 4
   \<and> state_changes (trace (after 33 scenario_late_release)) = [ON, CALIBRATING, ON, OFF]"
  by (simp add: eval_nat_numeral scenario_tap_def scenario_quick_tap_def
      scenario_late_release_def sim_defs state_changes_append state_changes_io list_all_iff)

section \<open>The numbers of the tests\<close>

subsection \<open>Enclosing a power\<close>

lemma powr_half_square: "0 < (x::real) \<Longrightarrow> x powr (e / 2) * x powr (e / 2) = x powr e"
  by (simp flip: powr_add)

lemma square_le_imp_le: "(a::real) * a \<le> b * b \<Longrightarrow> 0 \<le> b \<Longrightarrow> a \<le> b"
  using power2_le_imp_le [of a b] by (simp add: power2_eq_square)

lemma roots_below_nonneg: "roots_below p ls \<Longrightarrow> 0 \<le> selected bs ls"
  by (induction bs ls arbitrary: p rule: selected.induct) auto

lemma roots_above_nonneg: "roots_above p us \<Longrightarrow> 0 \<le> selected bs us"
  by (induction bs us arbitrary: p rule: selected.induct) auto

lemma selected_below:
  "0 < x \<Longrightarrow> roots_below p ls \<Longrightarrow> p \<le> x powr e \<Longrightarrow> length bs \<le> length ls \<Longrightarrow>
   selected bs ls \<le> x powr (dyadic e bs)"
proof (induction bs ls arbitrary: p e rule: selected.induct)
  case (1 b bs l ls)
  have "l * l \<le> x powr (e / 2) * x powr (e / 2)"
    using "1.prems" by (simp add: powr_half_square)
  then have l: "l \<le> x powr (e / 2)"
    by (rule square_le_imp_le) simp
  have rest: "selected bs ls \<le> x powr (dyadic (e / 2) bs)"
    using "1.prems" l by (intro "1.IH" [of l]) simp_all
  have nn: "0 \<le> selected bs ls"
    using "1.prems"(2) roots_below_nonneg [of l ls] by simp
  show ?case
  proof (cases b)
    case True
    have "l * selected bs ls \<le> x powr (e / 2) * x powr (dyadic (e / 2) bs)"
      using l rest nn "1.prems"(2) by (intro mult_mono) simp_all
    then show ?thesis using True "1.prems"(1) by (simp add: powr_add)
  next
    case False
    then show ?thesis using rest by simp
  qed
qed simp_all

lemma selected_above:
  "0 < x \<Longrightarrow> roots_above p us \<Longrightarrow> x powr e \<le> p \<Longrightarrow> length bs \<le> length us \<Longrightarrow>
   x powr (dyadic e bs) \<le> selected bs us"
proof (induction bs us arbitrary: p e rule: selected.induct)
  case (1 b bs u us)
  have "x powr (e / 2) * x powr (e / 2) \<le> u * u"
    using "1.prems" by (simp add: powr_half_square)
  then have u: "x powr (e / 2) \<le> u"
    by (rule square_le_imp_le) (use "1.prems"(2) in simp)
  have rest: "x powr (dyadic (e / 2) bs) \<le> selected bs us"
    using "1.prems" u by (intro "1.IH" [of u]) simp_all
  show ?case
  proof (cases b)
    case True
    have "x powr (e / 2) * x powr (dyadic (e / 2) bs) \<le> u * selected bs us"
      using u rest "1.prems"(2) by (intro mult_mono) simp_all
    then show ?thesis using True "1.prems"(1) by (simp add: powr_add)
  next
    case False
    then show ?thesis using rest by simp
  qed
qed simp_all

lemma powr_between:
  assumes "1 \<le> x"
    and "roots_below x ls" and "length bs \<le> length ls" and "1 + dyadic 1 bs \<le> a"
    and "roots_above x us" and "length cs \<le> length us" and "a \<le> 1 + dyadic 1 cs"
  shows "x * selected bs ls \<le> x powr a" and "x powr a \<le> x * selected cs us"
proof -
  have x: "0 < x" "x powr 1 = x"
    using assms(1) by simp_all
  have "selected bs ls \<le> x powr (dyadic 1 bs)"
    using assms x by (intro selected_below [of x x]) simp_all
  then have "x * selected bs ls \<le> x powr (1 + dyadic 1 bs)"
    using x by (simp add: powr_add)
  also have "\<dots> \<le> x powr a"
    using assms(1,4) by (intro powr_mono) simp_all
  finally show "x * selected bs ls \<le> x powr a" .
  have "x powr (dyadic 1 cs) \<le> selected cs us"
    using assms x by (intro selected_above [of x x]) simp_all
  then have "x powr (1 + dyadic 1 cs) \<le> x * selected cs us"
    using x by (simp add: powr_add)
  moreover have "x powr a \<le> x powr (1 + dyadic 1 cs)"
    using assms(1,7) by (intro powr_mono) simp_all
  ultimately show "x powr a \<le> x * selected cs us" by simp
qed

subsection \<open>The four powers of the test samples\<close>

lemma power_3095:
  "251733 / 50000 \<le> (619 / 200 :: real) powr (143068 / 100000)"
  "(619 / 200 :: real) powr (143068 / 100000) \<le> 251803 / 50000"
proof -
  let ?ls = "[175926120857591 / 100000000000000, 132637144442117 / 100000000000000, 57584100332061 / 50000000000000, 107316448256603 / 100000000000000, 51796826219519 / 50000000000000, 25445241750551 / 25000000000000, 6305409600909 / 6250000000000, 100442298666719 / 100000000000000, 50110452668759 / 50000000000000, 2502759793427 / 2500000000000, 50027590322011 / 50000000000000, 100027586516931 / 100000000000000] :: real list"
  let ?us = "[21990765107199 / 12500000000000, 66318572221059 / 50000000000000, 28792050166031 / 25000000000000, 21463289651321 / 20000000000000, 10116567621 / 9765625000, 50890483501103 / 50000000000000, 50443276807273 / 50000000000000, 100442298666721 / 100000000000000, 1252761316719 / 1250000000000, 50055195868541 / 50000000000000, 12506897580503 / 12500000000000, 100027586516933 / 100000000000000] :: real list"
  let ?bs = "[False, True, True, False, True, True, True, False, False, True, False, False]"
  let ?cs = "[False, True, True, False, True, True, True, False, False, True, False, True]"
  have l: "roots_below (619 / 200) ?ls"
    by simp
  have u: "roots_above (619 / 200) ?us"
    by simp
  have b: "1 + dyadic 1 ?bs \<le> 143068 / 100000" "143068 / 100000 \<le> 1 + dyadic 1 ?cs"
    by simp_all
  have "(619 / 200) * selected ?bs ?ls \<le> (619 / 200 :: real) powr (143068 / 100000)"
    by (rule powr_between(1) [OF _ l _ b(1) u _ b(2)]) simp_all
  moreover have "251733 / 50000 \<le> (619 / 200) * selected ?bs ?ls"
    by simp
  ultimately show "251733 / 50000 \<le> (619 / 200 :: real) powr (143068 / 100000)"
    by (rule order_trans [rotated])
  have "(619 / 200 :: real) powr (143068 / 100000) \<le> (619 / 200) * selected ?cs ?us"
    by (rule powr_between(2) [OF _ l _ b(1) u _ b(2)]) simp_all
  moreover have "(619 / 200) * selected ?cs ?us \<le> 251803 / 50000"
    by simp
  ultimately show "(619 / 200 :: real) powr (143068 / 100000) \<le> 251803 / 50000"
    by (rule order_trans)
qed

lemma power_10475:
  "1068597 / 1000000 \<le> (419 / 400 :: real) powr (143068 / 100000)"
  "(419 / 400 :: real) powr (143068 / 100000) \<le> 534347 / 500000"
proof -
  let ?ls = "[102347447452293 / 100000000000000, 10116691526991 / 10000000000000, 100581765380167 / 100000000000000, 100290460852549 / 100000000000000, 25036281279943 / 25000000000000, 50036268126173 / 50000000000000, 12504532693959 / 12500000000000, 25004532283127 / 25000000000000, 100009064155459 / 100000000000000] :: real list"
  let ?us = "[51173723726147 / 50000000000000, 12645864408739 / 12500000000000, 100581765380169 / 100000000000000, 100290460852551 / 100000000000000, 50072562559887 / 50000000000000, 25018134063087 / 25000000000000, 50018130775837 / 50000000000000, 10001812913251 / 10000000000000, 100009064155461 / 100000000000000] :: real list"
  let ?bs = "[False, True, True, False, True, True, True, False, False]"
  let ?cs = "[False, True, True, False, True, True, True, False, True]"
  have l: "roots_below (419 / 400) ?ls"
    by simp
  have u: "roots_above (419 / 400) ?us"
    by simp
  have b: "1 + dyadic 1 ?bs \<le> 143068 / 100000" "143068 / 100000 \<le> 1 + dyadic 1 ?cs"
    by simp_all
  have "(419 / 400) * selected ?bs ?ls \<le> (419 / 400 :: real) powr (143068 / 100000)"
    by (rule powr_between(1) [OF _ l _ b(1) u _ b(2)]) simp_all
  moreover have "1068597 / 1000000 \<le> (419 / 400) * selected ?bs ?ls"
    by simp
  ultimately show "1068597 / 1000000 \<le> (419 / 400 :: real) powr (143068 / 100000)"
    by (rule order_trans [rotated])
  have "(419 / 400 :: real) powr (143068 / 100000) \<le> (419 / 400) * selected ?cs ?us"
    by (rule powr_between(2) [OF _ l _ b(1) u _ b(2)]) simp_all
  moreover have "(419 / 400) * selected ?cs ?us \<le> 534347 / 500000"
    by simp
  ultimately show "(419 / 400 :: real) powr (143068 / 100000) \<le> 534347 / 500000"
    by (rule order_trans)
qed

lemma power_365:
  "4228813 / 1000000 \<le> (200 / 73 :: real) powr (143068 / 100000)"
  "(200 / 73 :: real) powr (143068 / 100000) \<le> 4228879 / 1000000"
proof -
  let ?ls = "[165521177720473 / 100000000000000, 64327516997097 / 50000000000000, 113426202437617 / 100000000000000, 106501738219437 / 100000000000000, 12899959921173 / 12500000000000, 25396810745813 / 25000000000000, 25197624265897 / 25000000000000, 100394470496929 / 100000000000000, 25049260280611 / 25000000000000, 100098472077471 / 100000000000000, 50024611961881 / 50000000000000, 50012304466941 / 50000000000000, 50006151855017 / 50000000000000, 50003075832901 / 50000000000000, 50001537892799 / 50000000000000, 100001537880973 / 100000000000000] :: real list"
  let ?us = "[82760588860237 / 50000000000000, 25731006798839 / 20000000000000, 113426202437619 / 100000000000000, 106501738219439 / 100000000000000, 51599839684693 / 50000000000000, 50793621491627 / 50000000000000, 10079049706359 / 10000000000000, 100394470496931 / 100000000000000, 50098520561223 / 50000000000000, 100098472077473 / 100000000000000, 25012305980941 / 25000000000000, 25006152233471 / 25000000000000, 25003075927509 / 25000000000000, 25001537916451 / 25000000000000, 31250961183 / 31250000000, 4000061515239 / 4000000000000] :: real list"
  let ?bs = "[False, True, True, False, True, True, True, False, False, True, False, False, False, False, False, True]"
  let ?cs = "[False, True, True, False, True, True, True, False, False, True, False, False, False, False, True, False]"
  have l: "roots_below (200 / 73) ?ls"
    by simp
  have u: "roots_above (200 / 73) ?us"
    by simp
  have b: "1 + dyadic 1 ?bs \<le> 143068 / 100000" "143068 / 100000 \<le> 1 + dyadic 1 ?cs"
    by simp_all
  have "(200 / 73) * selected ?bs ?ls \<le> (200 / 73 :: real) powr (143068 / 100000)"
    by (rule powr_between(1) [OF _ l _ b(1) u _ b(2)]) simp_all
  moreover have "4228813 / 1000000 \<le> (200 / 73) * selected ?bs ?ls"
    by simp
  ultimately show "4228813 / 1000000 \<le> (200 / 73 :: real) powr (143068 / 100000)"
    by (rule order_trans [rotated])
  have "(200 / 73 :: real) powr (143068 / 100000) \<le> (200 / 73) * selected ?cs ?us"
    by (rule powr_between(2) [OF _ l _ b(1) u _ b(2)]) simp_all
  moreover have "(200 / 73) * selected ?cs ?us \<le> 4228879 / 1000000"
    by simp
  ultimately show "(200 / 73 :: real) powr (143068 / 100000) \<le> 4228879 / 1000000"
    by (rule order_trans)
qed

lemma power_2375:
  "21081681 / 100000 \<le> (800 / 19 :: real) powr (143068 / 100000)"
  "(800 / 19 :: real) powr (143068 / 100000) \<le> 527043 / 2500"
proof -
  let ?ls = "[12977713690461 / 2000000000000, 127366173347071 / 50000000000000, 79801683361653 / 50000000000000, 126334226052683 / 100000000000000, 22479699824747 / 20000000000000, 53009079204353 / 50000000000000, 51482559767533 / 50000000000000, 25367932456039 / 25000000000000, 100733177168277 / 100000000000000, 100365919100199 / 100000000000000, 100182792484637 / 100000000000000, 50045677257041 / 50000000000000, 6252854176859 / 6250000000000, 50011415404321 / 50000000000000, 50005707376419 / 50000000000000, 100005707213557 / 100000000000000, 6250178347879 / 6250000000000, 100001426772853 / 100000000000000, 100000713383881 / 100000000000000, 12500044586413 / 12500000000000, 25000044586373 / 25000000000000] :: real list"
  let ?us = "[648885684523051 / 100000000000000, 497524114637 / 195312500000, 159603366723307 / 100000000000000, 25266845210537 / 20000000000000, 112398499123737 / 100000000000000, 26504539602177 / 25000000000000, 25741279883767 / 25000000000000, 50735864912079 / 50000000000000, 100733177168279 / 100000000000000, 100365919100201 / 100000000000000, 100182792484639 / 100000000000000, 25022838628521 / 25000000000000, 50022833414873 / 50000000000000, 25005707702161 / 25000000000000, 2500285368821 / 2500000000000, 100005707213559 / 100000000000000, 50001426783033 / 50000000000000, 20000285354571 / 20000000000000, 100000713383883 / 100000000000000, 50000178345653 / 50000000000000, 50000089172747 / 50000000000000] :: real list"
  let ?bs = "[False, True, True, False, True, True, True, False, False, True, False, False, False, False, False, True, False, False, False, False, True]"
  let ?cs = "[False, True, True, False, True, True, True, False, False, True, False, False, False, False, False, True, False, False, False, True, False]"
  have l: "roots_below (800 / 19) ?ls"
    by simp
  have u: "roots_above (800 / 19) ?us"
    by simp
  have b: "1 + dyadic 1 ?bs \<le> 143068 / 100000" "143068 / 100000 \<le> 1 + dyadic 1 ?cs"
    by simp_all
  have "(800 / 19) * selected ?bs ?ls \<le> (800 / 19 :: real) powr (143068 / 100000)"
    by (rule powr_between(1) [OF _ l _ b(1) u _ b(2)]) simp_all
  moreover have "21081681 / 100000 \<le> (800 / 19) * selected ?bs ?ls"
    by simp
  ultimately show "21081681 / 100000 \<le> (800 / 19 :: real) powr (143068 / 100000)"
    by (rule order_trans [rotated])
  have "(800 / 19 :: real) powr (143068 / 100000) \<le> (800 / 19) * selected ?cs ?us"
    by (rule powr_between(2) [OF _ l _ b(1) u _ b(2)]) simp_all
  moreover have "(800 / 19) * selected ?cs ?us \<le> 527043 / 2500"
    by simp
  ultimately show "(800 / 19 :: real) powr (143068 / 100000) \<le> 527043 / 2500"
    by (rule order_trans)
qed


subsection \<open>The concentrations of the test samples\<close>

lemma concentration_above_one:
  assumes "1 \<le> x" and "0 < l" and "l \<le> x powr (143068 / 100000)"
    and "x powr (143068 / 100000) \<le> u"
  shows "0.4 / u \<le> concentration x 1" and "concentration x 1 \<le> 0.4 / l"
proof -
  let ?y = "x powr (143068 / 100000)"
  have c: "concentration x 1 = 0.4 / ?y"
    unfolding concentration_def by (simp add: powr_minus inverse_eq_divide)
  have y: "0 < ?y" using assms(1) by simp
  have u: "0 < u" using y assms(4) by linarith
  have "(0.4::real) / u \<le> 0.4 / ?y"
    by (rule divide_left_mono) (use assms(4) y u in simp_all)
  then show "0.4 / u \<le> concentration x 1"
    unfolding c .
  have "(0.4::real) / ?y \<le> 0.4 / l"
    by (rule divide_left_mono) (use assms(2,3) y in simp_all)
  then show "concentration x 1 \<le> 0.4 / l"
    unfolding c .
qed


lemma concentration_below_one:
  assumes "0 < x" and "l \<le> (1 / x) powr (143068 / 100000)"
    and "(1 / x) powr (143068 / 100000) \<le> u"
  shows "0.4 * l \<le> concentration x 1" and "concentration x 1 \<le> 0.4 * u"
proof -
  have "x powr (- (143068 / 100000)) = (1 / x) powr (143068 / 100000)"
    using assms(1) by (simp add: powr_minus powr_divide inverse_eq_divide)
  then have c: "concentration x 1 = 0.4 * (1 / x) powr (143068 / 100000)"
    unfolding concentration_def by simp
  show "0.4 * l \<le> concentration x 1" "concentration x 1 \<le> 0.4 * u"
    unfolding c using assms(2,3) by simp_all
qed

lemma concentration_scale: "concentration rs r = concentration (rs / r) 1"
  by (simp add: concentration_def)

lemma concentration_1000:
  "0.079427 \<le> concentration (resistance 1000) 1000"
  "concentration (resistance 1000) 1000 \<le> 0.079450"
proof -
  have c: "concentration (resistance 1000) 1000 = concentration (619 / 200) 1"
    unfolding concentration_scale [of _ 1000] by (simp add: resistance_simp)
  show "0.079427 \<le> concentration (resistance 1000) 1000"
    unfolding c
    using concentration_above_one(1) [where x = "619 / 200", OF _ _ power_3095(1) power_3095(2)]
    by simp
  show "concentration (resistance 1000) 1000 \<le> 0.079450"
    unfolding c
    using concentration_above_one(2) [where x = "619 / 200", OF _ _ power_3095(1) power_3095(2)]
    by simp
qed

lemma concentration_2000:
  "0.374288 \<le> concentration (resistance 2000) 1000"
  "concentration (resistance 2000) 1000 \<le> 0.374323"
proof -
  have c: "concentration (resistance 2000) 1000 = concentration (419 / 400) 1"
    unfolding concentration_scale [of _ 1000] by (simp add: resistance_simp)
  show "0.374288 \<le> concentration (resistance 2000) 1000"
    unfolding c
    using concentration_above_one(1) [where x = "419 / 400", OF _ _ power_10475(1) power_10475(2)]
    by simp
  show "concentration (resistance 2000) 1000 \<le> 0.374323"
    unfolding c
    using concentration_above_one(2) [where x = "419 / 400", OF _ _ power_10475(1) power_10475(2)]
    by simp
qed

lemma concentration_3000:
  "1.691525 \<le> concentration (resistance 3000) 1000"
  "concentration (resistance 3000) 1000 \<le> 1.691552"
proof -
  have c: "concentration (resistance 3000) 1000 = concentration (73 / 200) 1"
    unfolding concentration_scale [of _ 1000] by (simp add: resistance_simp)
  have i: "(1::real) / (73 / 200) = 200 / 73"
    by simp
  show "1.691525 \<le> concentration (resistance 3000) 1000"
    unfolding c
    using concentration_below_one(1) [where x = "73 / 200", unfolded i, OF _ power_365(1) power_365(2)]
    by simp
  show "concentration (resistance 3000) 1000 \<le> 1.691552"
    unfolding c
    using concentration_below_one(2) [where x = "73 / 200", unfolded i, OF _ power_365(1) power_365(2)]
    by simp
qed

lemma concentration_4000:
  "84.3267 \<le> concentration (resistance 4000) 1000"
  "concentration (resistance 4000) 1000 \<le> 84.3269"
proof -
  have c: "concentration (resistance 4000) 1000 = concentration (19 / 800) 1"
    unfolding concentration_scale [of _ 1000] by (simp add: resistance_simp)
  have i: "(1::real) / (19 / 800) = 800 / 19"
    by simp
  show "84.3267 \<le> concentration (resistance 4000) 1000"
    unfolding c
    using concentration_below_one(1) [where x = "19 / 800", unfolded i, OF _ power_2375(1) power_2375(2)]
    by simp
  show "concentration (resistance 4000) 1000 \<le> 84.3269"
    unfolding c
    using concentration_below_one(2) [where x = "19 / 800", unfolded i, OF _ power_2375(1) power_2375(2)]
    by simp
qed


subsection \<open>Conversion and smoothing\<close>

lemma resistance_positive: "0 < s \<Longrightarrow> s < 4095 \<Longrightarrow> 0 < resistance s"
  by (simp add: resistance_simp field_simps)

lemma read_raw_returns:
  assumes "0 < adc w (reading_index w)" and "adc w (reading_index w) < 4095" and "0 < r0 w"
  shows "read_raw_value_of_alcohol w =
     Inr (concentration (resistance (adc w (reading_index w))) (r0 w), snd (mq3_pin_read w))"
proof -
  have "0 < resistance (adc w (reading_index w)) / r0 w"
    using assms resistance_positive by simp
  then show ?thesis
    using assms
    by (simp add: read_raw_value_of_alcohol_def calculate_rs_cases math_pow_def
        concentration_def mq3_pin_read_def Let_def)
qed

lemma read_raw_full_scale:
  assumes "adc w (reading_index w) = 4095" and "r0 w \<noteq> 0"
  shows "read_raw_value_of_alcohol w = Inl (ValueError, snd (mq3_pin_read w))"
  using assms
  by (simp add: read_raw_value_of_alcohol_def calculate_rs_cases math_pow_def resistance_simp
      mq3_pin_read_def Let_def)

lemma read_raw_fields:
  "read_raw_value_of_alcohol w = Inr (raw, w1) \<Longrightarrow>
   readings w1 = readings w \<and> max_readings w1 = max_readings w"
  by (auto simp add: read_raw_value_of_alcohol_def calculate_rs_cases mq3_pin_read_def Let_def
      split: if_splits sum.splits)

text \<open>
  What \<open>get_smoothed_reading\<close> does with the window: the new value is appended, the
  oldest value is dropped when the window was full, the mean of the window is returned,
  and the window never grows beyond \<open>max_readings\<close>.
\<close>

lemma get_smoothed_reading_window:
  assumes "read_raw_value_of_alcohol w = Inr (raw, w1)"
    and "length (readings w) \<le> max_readings w" and "0 < max_readings w"
  shows "get_smoothed_reading w =
     (let kept = (if length (readings w) < max_readings w then readings w @ [raw]
                  else tl (readings w) @ [raw])
      in Inr (sum_list kept / real (length kept), w1\<lparr>readings := kept\<rparr>))"
    and "length (if length (readings w) < max_readings w then readings w @ [raw]
                 else tl (readings w) @ [raw]) \<le> max_readings w"
proof -
  have f: "readings w1 = readings w" "max_readings w1 = max_readings w"
    using read_raw_fields [OF assms(1)] by simp_all
  show "get_smoothed_reading w =
     (let kept = (if length (readings w) < max_readings w then readings w @ [raw]
                  else tl (readings w) @ [raw])
      in Inr (sum_list kept / real (length kept), w1\<lparr>readings := kept\<rparr>))"
  proof (cases "length (readings w) < max_readings w")
    case True
    then show ?thesis
      using assms by (simp add: get_smoothed_reading_def f Let_def)
  next
    case False
    then have "readings w \<noteq> []" using assms(3) by auto
    then show ?thesis
      using assms False by (simp add: get_smoothed_reading_def f Let_def)
  qed
  show "length (if length (readings w) < max_readings w then readings w @ [raw]
                 else tl (readings w) @ [raw]) \<le> max_readings w"
    using assms by auto
qed

lemma window_bounded:
  "length (readings w) \<le> max_readings w \<Longrightarrow>
   length (readings (world_of (get_smoothed_reading w)))
     \<le> max_readings (world_of (get_smoothed_reading w))"
  by (auto simp add: get_smoothed_reading_def read_raw_value_of_alcohol_def calculate_rs_cases
      mq3_pin_read_def world_of_def Let_def split: sum.splits if_splits)


subsection \<open>The values of the test suite\<close>

lemma mock_adc_nth: "mock_adc xs i = xs ! (i mod length xs)"
  by (simp add: mock_adc_def)

lemma call_times_numeral:
  "call_times (numeral k) f w =
     (case f w of
        Inl e \<Rightarrow> Inl e
      | Inr (x, w1) \<Rightarrow>
          (case call_times (pred_numeral k) f w1 of
             Inl e \<Rightarrow> Inl e
           | Inr (xs, w2) \<Rightarrow> Inr (x # xs, w2)))"
  by (simp add: numeral_eq_Suc)

lemmas test_defs = mock_sensor_def main_start_def mock_adc_nth mq3_pin_read_def Let_def
  call_times_numeral

lemma test_resistances:
  "resistance 1000 = 3095" "resistance 2000 = 1047.5" "resistance 3000 = 365"
  "resistance 4000 = 23.75"
  by (simp_all add: resistance_simp)

text \<open>
  C1. The resistances and the concentrations of the test samples. For the raw samples
  1000, 2000, 3000 and 4000, four calls of \<open>_calculate_rs\<close> return 3095, 1047.5, 365 and
  23.75; none of them is within 1.0 of the values 9900, 3900, 1900 and 900 that
  \<open>test_calculate_rs\<close> expects. With \<open>r0 = 1000\<close>, four calls of
  \<open>read_raw_value_of_alcohol\<close> return \<open>0.4 * (rs / r0) ^ (-1.43068)\<close> for these four
  resistances, which is 0.0794, 0.3743, 1.6915 and 84.3268 to within 0.001; none of them
  is within 0.001 of the values 3.4846, 0.8787, 0.3651 and 0.1645 that
  \<open>test_read_raw_value_of_alcohol\<close> expects.
\<close>

theorem C1_test_values:
  "map_sum fst fst (call_times 4 calculate_rs (mock_sensor [1000, 2000, 3000, 4000]))
     = Inr [3095, 1047.5, 365, 23.75]
   \<and> list_all2 (\<lambda>rs v. \<not> approx_equal rs v 1.0)
         [3095, 1047.5, 365, 23.75] [9900.0, 3900.0, 1900.0, 900.0]
   \<and> map_sum fst fst
        (call_times 4 read_raw_value_of_alcohol
           ((mock_sensor [1000, 2000, 3000, 4000])\<lparr>r0 := 1000\<rparr>))
       = Inr [concentration 3095 1000, concentration 1047.5 1000,
              concentration 365 1000, concentration 23.75 1000]
   \<and> list_all2 (\<lambda>c v. approx_equal c v 0.001)
         [concentration 3095 1000, concentration 1047.5 1000,
          concentration 365 1000, concentration 23.75 1000]
         [0.0794, 0.3743, 1.6915, 84.3268]
   \<and> list_all2 (\<lambda>c v. \<not> approx_equal c v 0.001)
         [concentration 3095 1000, concentration 1047.5 1000,
          concentration 365 1000, concentration 23.75 1000]
         [3.4846, 0.8787, 0.3651, 0.1645]"
proof -
  have rs: "map_sum fst fst (call_times 4 calculate_rs (mock_sensor [1000, 2000, 3000, 4000]))
     = Inr [3095, 1047.5, 365, 23.75]"
    by (simp add: calculate_rs_cases resistance_simp test_defs)
  have n: "list_all2 (\<lambda>rs v. \<not> approx_equal rs v 1.0)
         [3095, 1047.5, 365, 23.75] [9900.0, 3900.0, 1900.0, 900.0]"
    by (simp add: approx_equal_def)
  have cs: "map_sum fst fst
        (call_times 4 read_raw_value_of_alcohol
           ((mock_sensor [1000, 2000, 3000, 4000])\<lparr>r0 := 1000\<rparr>))
       = Inr [concentration (resistance 1000) 1000, concentration (resistance 2000) 1000,
              concentration (resistance 3000) 1000, concentration (resistance 4000) 1000]"
    by (simp add: read_raw_returns test_defs)
  have a: "list_all2 (\<lambda>c v. approx_equal c v 0.001)
         [concentration (resistance 1000) 1000, concentration (resistance 2000) 1000,
          concentration (resistance 3000) 1000, concentration (resistance 4000) 1000]
         [0.0794, 0.3743, 1.6915, 84.3268]"
    using concentration_1000 concentration_2000 concentration_3000 concentration_4000
    unfolding approx_equal_def abs_less_iff by simp
  have b: "list_all2 (\<lambda>c v. \<not> approx_equal c v 0.001)
         [concentration (resistance 1000) 1000, concentration (resistance 2000) 1000,
          concentration (resistance 3000) 1000, concentration (resistance 4000) 1000]
         [3.4846, 0.8787, 0.3651, 0.1645]"
    using concentration_1000 concentration_2000 concentration_3000 concentration_4000
    unfolding approx_equal_def abs_less_iff by simp
  show ?thesis
    by (intro conjI rs n cs [unfolded test_resistances] a [unfolded test_resistances]
        b [unfolded test_resistances])
qed

text \<open>
  C3. Seven calls of \<open>get_smoothed_reading\<close> on the raw samples 1000, 2000, 3000, 4000,
  3000, 2000, 1000 with \<open>r0 = 1000\<close>. The \<open>n\<close>-th call returns the mean of the first
  \<open>n\<close> concentrations, and the window holds the seven concentrations in the order of
  their insertion (the capacity of 10 is not reached). The returned values are 0.0794,
  0.2269, 0.7151, 21.6180, 17.6327, 14.7563 and 12.6596 to within 0.001; none of them is
  within 0.001 of the values 3.4846, 2.1816, 1.5761, 1.2232, 1.0375, 0.9247 and 0.8787
  that \<open>test_get_smoothed_reading\<close> expects.
\<close>

theorem C3_smoothed_test_values:
  "map_sum fst (\<lambda>(ys, w). (ys, readings w))
     (call_times 7 get_smoothed_reading
        ((mock_sensor [1000, 2000, 3000, 4000, 3000, 2000, 1000])\<lparr>r0 := 1000\<rparr>))
     = Inr (map (\<lambda>n. sum_list (take n
                  [concentration 3095 1000, concentration 1047.5 1000, concentration 365 1000,
                   concentration 23.75 1000, concentration 365 1000, concentration 1047.5 1000,
                   concentration 3095 1000]) / real n) [1, 2, 3, 4, 5, 6, 7],
            [concentration 3095 1000, concentration 1047.5 1000, concentration 365 1000,
             concentration 23.75 1000, concentration 365 1000, concentration 1047.5 1000,
             concentration 3095 1000])
   \<and> list_all2 (\<lambda>y v. approx_equal y v 0.001)
        (map (\<lambda>n. sum_list (take n
                  [concentration 3095 1000, concentration 1047.5 1000, concentration 365 1000,
                   concentration 23.75 1000, concentration 365 1000, concentration 1047.5 1000,
                   concentration 3095 1000]) / real n) [1, 2, 3, 4, 5, 6, 7])
        [0.0794, 0.2269, 0.7151, 21.6180, 17.6327, 14.7563, 12.6596]
   \<and> list_all2 (\<lambda>y v. \<not> approx_equal y v 0.001)
        (map (\<lambda>n. sum_list (take n
                  [concentration 3095 1000, concentration 1047.5 1000, concentration 365 1000,
                   concentration 23.75 1000, concentration 365 1000, concentration 1047.5 1000,
                   concentration 3095 1000]) / real n) [1, 2, 3, 4, 5, 6, 7])
        [3.4846, 2.1816, 1.5761, 1.2232, 1.0375, 0.9247, 0.8787]"
proof -
  let ?cs = "[concentration (resistance 1000) 1000, concentration (resistance 2000) 1000,
      concentration (resistance 3000) 1000, concentration (resistance 4000) 1000,
      concentration (resistance 3000) 1000, concentration (resistance 2000) 1000,
      concentration (resistance 1000) 1000]"
  let ?ys = "map (\<lambda>n. sum_list (take n ?cs) / real n) [1, 2, 3, 4, 5, 6, 7]"
  have ys: "map_sum fst (\<lambda>(ys, w). (ys, readings w))
     (call_times 7 get_smoothed_reading
        ((mock_sensor [1000, 2000, 3000, 4000, 3000, 2000, 1000])\<lparr>r0 := 1000\<rparr>))
     = Inr (?ys, ?cs)"
    by (simp add: get_smoothed_reading_def read_raw_returns test_defs)
  have a: "list_all2 (\<lambda>y v. approx_equal y v 0.001) ?ys
        [0.0794, 0.2269, 0.7151, 21.6180, 17.6327, 14.7563, 12.6596]"
    using concentration_1000 concentration_2000 concentration_3000 concentration_4000
    unfolding approx_equal_def abs_less_iff by (simp add: add_divide_distrib)
  have b: "list_all2 (\<lambda>y v. \<not> approx_equal y v 0.001) ?ys
        [3.4846, 2.1816, 1.5761, 1.2232, 1.0375, 0.9247, 0.8787]"
    using concentration_1000 concentration_2000 concentration_3000 concentration_4000
    unfolding approx_equal_def abs_less_iff by (simp add: add_divide_distrib)
  show ?thesis
    by (intro conjI ys [unfolded test_resistances] a [unfolded test_resistances]
        b [unfolded test_resistances])
qed

end
